theory Spec2Isabelle
  imports Main "HOL-Library.AList" "HOL-Library.Sublist"
begin

section \<open>The schema compiler of \<open>src/lib/Spikenail.js\<close>\<close>

text \<open>
  The development embeds the methods \<open>createGraphqlSchema\<close>, \<open>buildCRUDMutation\<close>,
  \<open>wrapTypeIntoConnection\<close>, \<open>schemaToGraphqlFields\<close>, \<open>schemaToMutationFields\<close> and
  \<open>fieldToGraphqlType\<close> of the class \<open>Spikenail\<close>.

  The embedding ends at the configuration objects that the code hands to graphql-js and
  graphql-relay: \<open>new GraphQLObjectType(config)\<close>, \<open>mutationWithClientMutationId(config)\<close>
  and \<open>new GraphQLSchema(config)\<close> are recorded as data and the checks those libraries run
  on a configuration are outside of it. A closure stored in a configuration is recorded as
  a tag of the datatype \<open>resolver\<close>; \<open>resolve_payload\<close> gives the tags of the mutation
  output fields their meaning on a mutation payload.
\<close>

subsection \<open>JavaScript objects, strings and exceptions\<close>

text \<open>
  An object with string keys is an association list in the order of \<open>Object.keys\<close>.
  \<open>o[k]\<close> is \<^const>\<open>map_of\<close>, \<open>o[k] = v\<close> is \<^const>\<open>AList.update\<close> (it replaces the value of
  an existing key in place and appends a new key), \<open>delete o[k]\<close> is \<^const>\<open>AList.delete\<close>.
  Only own properties are looked up. An object that the compiler reads (the registry, the
  properties of a schema) is given by its entries in the order of \<open>Object.keys\<close>; the
  statements about an object that the compiler builds are about its keys and values, not
  about their order.
\<close>

type_synonym 'a obj = "(string \<times> 'a) list"

datatype error = TypeError string

text \<open>Truthiness of a value that is a string or \<open>undefined\<close>.\<close>

definition truthy :: "string option \<Rightarrow> bool" where
  "truthy v = (case v of None \<Rightarrow> False | Some s \<Rightarrow> s \<noteq> [])"

text \<open>A value used as a property key or in a string concatenation.\<close>

definition toString :: "string option \<Rightarrow> string" where
  "toString v = (case v of None \<Rightarrow> ''undefined'' | Some s \<Rightarrow> s)"

text \<open>
  \<open>capitalize\<close> of lodash is \<open>upperFirst(toString(string).toLowerCase())\<close>: the first
  character in upper case, the rest in lower case. The case mapping is the one of the
  ASCII letters; every other character is kept.
\<close>

definition lowerLetters :: string where
  "lowerLetters = ''abcdefghijklmnopqrstuvwxyz''"

definition upperLetters :: string where
  "upperLetters = ''ABCDEFGHIJKLMNOPQRSTUVWXYZ''"

definition toUpperCase :: "char \<Rightarrow> char" where
  "toUpperCase c = (case map_of (zip lowerLetters upperLetters) c of Some u \<Rightarrow> u | None \<Rightarrow> c)"

definition toLowerCase :: "char \<Rightarrow> char" where
  "toLowerCase c = (case map_of (zip upperLetters lowerLetters) c of Some l \<Rightarrow> l | None \<Rightarrow> c)"

definition upperFirst :: "string \<Rightarrow> string" where
  "upperFirst s = (case s of [] \<Rightarrow> [] | c # cs \<Rightarrow> toUpperCase c # cs)"

definition capitalize :: "string \<Rightarrow> string" where
  "capitalize s = upperFirst (map toLowerCase s)"

text \<open>\<open>Object.assign(target, source)\<close>: the keys of \<open>source\<close> are set on \<open>target\<close> in order.\<close>

definition object_assign :: "'a obj \<Rightarrow> 'a obj \<Rightarrow> 'a obj" where
  "object_assign target source = fold (\<lambda>(k, v). AList.update k v) source target"

subsection \<open>Model descriptors\<close>

text \<open>
  \<open>field.type\<close> is compared by the \<open>switch\<close> of \<open>fieldToGraphqlType\<close> with \<open>'id'\<close>, \<open>String\<close>,
  \<open>Boolean\<close>, \<open>Number\<close>, \<open>'Float'\<close>, \<open>Object\<close> and \<open>Array\<close>; every other value takes the
  \<open>default\<close> branch.
\<close>

datatype prop_type =
  TypeId | TypeString | TypeBoolean | TypeNumber | TypeFloat | TypeObject | TypeArray | TypeOther

record property =
  ptype :: prop_type
  relation :: "string option"
  ref :: "string option"
  foreignKeyFor :: "string option"

text \<open>\<open>resolvers\<close> lists the property names \<open>p\<close> for which \<open>schema.resolvers[p]\<close> is truthy.\<close>

record model_schema =
  name :: string
  properties :: "property obj"
  resolvers :: "string list"

record model =
  getName :: string
  isViewer :: bool
  schema :: model_schema

text \<open>
  An entry of the model registry is \<open>None\<close> when the loaded module has no \<open>getName\<close>
  (an empty model file, which has none of the methods of a model).
\<close>

type_synonym models = "model option obj"

subsection \<open>GraphQL types, arguments and resolvers\<close>

text \<open>
  \<open>ModelType n\<close> is the placeholder \<open>modelTypes[n]\<close>, whose field thunk reads
  \<open>modelFields[n]\<close>; \<open>ViewerType\<close> is the object type named \<open>viewer\<close>, whose thunk reads
  \<open>viewerFields\<close>; \<open>NodeInterface\<close> is the interface returned by \<open>nodeDefinitions\<close>.
  \<open>GraphQLObjectType n fs\<close> is an object type built in place (an Edge or a
  Connection) with the types of its fields, \<open>None\<close> for \<open>undefined\<close>. \<open>MutationError\<close>
  and \<open>PageInfo\<close> are the imported types of \<open>./types\<close>.
\<close>

datatype gql_type =
    GraphQLString
  | GraphQLBoolean
  | GraphQLInt
  | GraphQLFloat
  | GraphQLID
  | GraphQLJSON
  | MutationError
  | PageInfo
  | GraphQLNonNull gql_type
  | GraphQLList gql_type
  | GraphQLObjectType string "(string \<times> gql_type option) list"
  | ModelType string
  | ViewerType
  | NodeInterface

text \<open>
  \<open>type.name\<close>. The wrappers \<open>GraphQLNonNull\<close> and \<open>GraphQLList\<close> have no \<open>name\<close>; the
  two imported types are given the names of their modules. The compiler reads the name of
  a model type only.
\<close>

fun type_name :: "gql_type \<Rightarrow> string option" where
  "type_name GraphQLString = Some ''String''"
| "type_name GraphQLBoolean = Some ''Boolean''"
| "type_name GraphQLInt = Some ''Int''"
| "type_name GraphQLFloat = Some ''Float''"
| "type_name GraphQLID = Some ''ID''"
| "type_name GraphQLJSON = Some ''JSON''"
| "type_name MutationError = Some ''MutationError''"
| "type_name PageInfo = Some ''PageInfo''"
| "type_name (GraphQLNonNull t) = None"
| "type_name (GraphQLList t) = None"
| "type_name (GraphQLObjectType n fs) = Some n"
| "type_name (ModelType n) = Some n"
| "type_name ViewerType = Some ''viewer''"
| "type_name NodeInterface = Some ''Node''"

fun getNullableType :: "gql_type \<Rightarrow> gql_type" where
  "getNullableType (GraphQLNonNull t) = t"
| "getNullableType t = t"

text \<open>
  The results of \<open>model.getGraphqlItemArgs()\<close> and \<open>model.getGraphqlListArgs()\<close>, and the
  argument \<open>id\<close> of the node field.
\<close>

datatype gargs = GraphqlItemArgs model | GraphqlListArgs model | NodeArgs

text \<open>
  The closures of the compiler, one tag each:
  \<^item> \<open>ResolveNode\<close>: the resolver of the node field, which decodes the global id and asks
    the data loader of the decoded type;
  \<^item> \<open>GlobalIdResolve t f\<close>: the resolver of \<open>globalIdField(t, idFetcher)\<close>, where \<open>f\<close> is the
    property read by the \<open>idFetcher\<close> (\<open>None\<close>: no \<open>idFetcher\<close>, the object's \<open>id\<close>);
  \<^item> \<open>CustomResolve p\<close>: \<open>schema.resolvers[p].bind(this)\<close>;
  \<^item> \<open>ResolveViewer m\<close>: \<open>viewerModel.resolveViewer({}, ...)\<close> with \<open>viewerModel = m\<close>;
  \<^item> \<open>ResolveItem m\<close>: \<open>model.resolveItem(params, ...)\<close> after decoding \<open>args.id\<close>;
  \<^item> \<open>ResolveAll n\<close>: \<open>this.models[n].resolveAll({}, ...)\<close>;
  \<^item> \<open>ResolveHasMany r f\<close>: \<open>this.models[r].resolveHasMany({property: f}, ...)\<close>;
  \<^item> \<open>ViewerResolve\<close>: the resolver of the viewer root, which returns \<open>{}\<close>;
  \<^item> \<open>ErrorsResolve\<close>, \<open>SuccessResolve m\<close>, \<open>RemovedIdResolve\<close>: the resolvers of the
    mutation output fields \<open>errors\<close>, the entity and \<open>removedId\<close>.
\<close>

datatype resolver =
    ResolveNode
  | GlobalIdResolve string "string option"
  | CustomResolve string
  | ResolveViewer model
  | ResolveItem model
  | ResolveAll string
  | ResolveHasMany string property
  | ViewerResolve
  | ErrorsResolve
  | SuccessResolve model
  | RemovedIdResolve

text \<open>A field configuration \<open>{type, args, resolve}\<close>; \<open>None\<close> is an absent or undefined entry.\<close>

record gfield =
  gtype :: "gql_type option"
  args :: "gargs option"
  resolve :: "resolver option"

text \<open>\<open>globalIdField(typeName, idFetcher)\<close> of graphql-relay: a non-null \<open>ID\<close>.\<close>

definition globalIdField :: "string \<Rightarrow> string option \<Rightarrow> gfield" where
  "globalIdField typeName idFetcher =
     \<lparr>gtype = Some (GraphQLNonNull GraphQLID), args = None,
      resolve = Some (GlobalIdResolve typeName idFetcher)\<rparr>"

definition plainField :: "gql_type \<Rightarrow> gfield" where
  "plainField t = \<lparr>gtype = Some t, args = None, resolve = None\<rparr>"

subsection \<open>\<open>fieldToGraphqlType\<close>\<close>

definition fieldToGraphqlType :: "string \<Rightarrow> property \<Rightarrow> model_schema \<Rightarrow> gfield" where
  "fieldToGraphqlType prop field schm =
     (case ptype field of
        TypeId \<Rightarrow>
          (if truthy (foreignKeyFor field)
           then globalIdField (toString (foreignKeyFor field)) (Some prop)
           else if name schm = ''viewer'' then globalIdField ''user'' None
           else globalIdField (name schm) None)
      | TypeString \<Rightarrow> plainField GraphQLString
      | TypeBoolean \<Rightarrow> plainField GraphQLBoolean
      | TypeNumber \<Rightarrow> plainField GraphQLInt
      | TypeFloat \<Rightarrow> plainField GraphQLFloat
      | TypeObject \<Rightarrow> plainField GraphQLJSON
      | TypeArray \<Rightarrow> plainField GraphQLJSON
      | TypeOther \<Rightarrow> plainField GraphQLString)"

subsection \<open>\<open>schemaToMutationFields\<close>\<close>

text \<open>
  \<open>inputField\<close> is what the body of the loop stores for a property that is no relation:
  \<open>fields[prop] = this.fieldToGraphqlType(prop, field, schema)\<close>, then
  \<open>fields[prop].type = getNullableType(fields[prop].type)\<close>.
\<close>

definition inputField :: "string \<Rightarrow> property \<Rightarrow> model_schema \<Rightarrow> gfield" where
  "inputField prop field schm =
     (let f = fieldToGraphqlType prop field schm
      in f\<lparr>gtype := map_option getNullableType (gtype f)\<rparr>)"

text \<open>
  The loop over \<open>Object.keys(schema.properties)\<close> runs over the entries of the object in
  key order; \<open>flds\<close> is the object \<open>fields\<close> under construction.
\<close>

fun mutationFields_loop :: "model_schema \<Rightarrow> property obj \<Rightarrow> gfield obj \<Rightarrow> gfield obj" where
  "mutationFields_loop schm [] flds = flds"
| "mutationFields_loop schm ((prop, field) # rest) flds =
     (if truthy (relation field) then mutationFields_loop schm rest flds
      else mutationFields_loop schm rest (AList.update prop (inputField prop field schm) flds))"

definition schemaToMutationFields :: "model_schema \<Rightarrow> gfield obj" where
  "schemaToMutationFields schm = mutationFields_loop schm (properties schm) []"

subsection \<open>\<open>schemaToGraphqlFields\<close>\<close>

text \<open>
  \<open>this.models[field.ref].getGraphqlListArgs()\<close> throws a \<open>TypeError\<close> when the registry has
  no model under the key \<open>field.ref\<close>.
\<close>

definition getGraphqlListArgs_of :: "models \<Rightarrow> string \<Rightarrow> error + gargs" where
  "getGraphqlListArgs_of this_models key =
     (case map_of this_models key of
        Some (Some m) \<Rightarrow> Inr (GraphqlListArgs m)
      | _ \<Rightarrow> Inl (TypeError ''getGraphqlListArgs''))"

definition relayEdge :: "string \<Rightarrow> gql_type option \<Rightarrow> gql_type" where
  "relayEdge edgeName node =
     GraphQLObjectType edgeName
       [(''cursor'', Some (GraphQLNonNull GraphQLString)), (''node'', node)]"

definition relayConnection :: "string \<Rightarrow> gql_type \<Rightarrow> gql_type" where
  "relayConnection connectionName edge =
     GraphQLObjectType connectionName
       [(''edges'', Some (GraphQLList edge)), (''pageInfo'', Some PageInfo)]"

text \<open>
  The field of a \<open>hasMany\<close> property: the Edge and Connection types are named after
  \<open>schema.name\<close> and the property.
\<close>

definition hasManyField ::
  "models \<Rightarrow> model_schema \<Rightarrow> gql_type obj \<Rightarrow> string \<Rightarrow> property \<Rightarrow> error + gfield" where
  "hasManyField this_models schm types prop field =
     (let type = map_of types (toString (ref field));
          Edge = relayEdge (name schm @ ''_'' @ prop @ ''Edge'') type;
          Connection = relayConnection (name schm @ ''_'' @ prop @ ''Connection'') Edge
      in case getGraphqlListArgs_of this_models (toString (ref field)) of
           Inl e \<Rightarrow> Inl e
         | Inr listArgs \<Rightarrow>
             Inr \<lparr>gtype = Some Connection, args = Some listArgs,
                  resolve = Some (ResolveHasMany (toString (ref field)) field)\<rparr>)"

text \<open>
  The field of a property that is no relation: \<open>fieldToGraphqlType\<close>, with the custom
  resolver of the schema when there is one.
\<close>

definition queryField :: "string \<Rightarrow> property \<Rightarrow> model_schema \<Rightarrow> gfield" where
  "queryField prop field schm =
     (let f = fieldToGraphqlType prop field schm
      in if prop \<in> set (resolvers schm) then f\<lparr>resolve := Some (CustomResolve prop)\<rparr> else f)"

fun graphqlFields_loop ::
  "models \<Rightarrow> model_schema \<Rightarrow> gql_type obj \<Rightarrow> property obj \<Rightarrow> gfield obj \<Rightarrow> error + gfield obj"
where
  "graphqlFields_loop this_models schm types [] flds = Inr flds"
| "graphqlFields_loop this_models schm types ((prop, field) # rest) flds =
     (if truthy (relation field) then
        (if relation field = Some ''hasMany'' then
           (case hasManyField this_models schm types prop field of
              Inl e \<Rightarrow> Inl e
            | Inr f \<Rightarrow>
                graphqlFields_loop this_models schm types rest (AList.update prop f flds))
         else graphqlFields_loop this_models schm types rest flds)
      else graphqlFields_loop this_models schm types rest
             (AList.update prop (queryField prop field schm) flds))"

definition schemaToGraphqlFields ::
  "models \<Rightarrow> model_schema \<Rightarrow> gql_type obj \<Rightarrow> error + gfield obj" where
  "schemaToGraphqlFields this_models schm types =
     graphqlFields_loop this_models schm types (properties schm) []"

subsection \<open>\<open>wrapTypeIntoConnection\<close>\<close>

definition wrapTypeIntoConnection :: "models \<Rightarrow> gql_type \<Rightarrow> string \<Rightarrow> error + gfield" where
  "wrapTypeIntoConnection this_models type parentName =
     (let nm = toString (type_name type);
          Edge = relayEdge (parentName @ ''_'' @ nm @ ''Edge'') (Some type);
          Connection = relayConnection (parentName @ ''_'' @ nm @ ''Connection'') Edge
      in case getGraphqlListArgs_of this_models nm of
           Inl e \<Rightarrow> Inl e
         | Inr listArgs \<Rightarrow>
             Inr \<lparr>gtype = Some Connection, args = Some listArgs,
                  resolve = Some (ResolveAll nm)\<rparr>)"

subsection \<open>\<open>buildCRUDMutation\<close>\<close>

text \<open>
  The configuration passed to \<open>mutationWithClientMutationId\<close>; \<open>mutateAndGetPayload\<close> is
  the model whose handler is called and the name of that handler.
\<close>

record mutation_config =
  config_name :: string
  inputFields :: "gfield obj"
  outputFields :: "gfield obj"
  mutateAndGetPayload :: "model \<times> string"

definition mutationWithClientMutationId :: "mutation_config \<Rightarrow> mutation_config" where
  "mutationWithClientMutationId config = config"

definition errorsField :: gfield where
  "errorsField =
     \<lparr>gtype = Some (GraphQLList MutationError), args = None, resolve = Some ErrorsResolve\<rparr>"

definition removedIdField :: gfield where
  "removedIdField = \<lparr>gtype = Some GraphQLString, args = None, resolve = Some RemovedIdResolve\<rparr>"

text \<open>
  \<open>crudConfig\<close> is the object \<open>config\<close> at the call of \<open>mutationWithClientMutationId\<close>:
  the literal, then the attachment of the viewer, then the changes made for \<open>remove\<close>.
\<close>

definition crudConfig :: "string \<Rightarrow> model \<Rightarrow> gql_type obj \<Rightarrow> gfield option \<Rightarrow> mutation_config" where
  "crudConfig action model types viewer =
     (let mutationName = action @ capitalize (getName model);
          mutationFields = schemaToMutationFields (schema model);
          mutationFields =
            (if action = ''create'' then AList.delete ''id'' mutationFields else mutationFields);
          successResolver =
            (if action = ''create'' \<or> action = ''update'' then Some (SuccessResolve model)
             else None);
          output =
            AList.update (getName model)
              \<lparr>gtype = map_of types (getName model), args = None, resolve = successResolver\<rparr>
              [(''errors'', errorsField)];
          output =
            (case viewer of Some v \<Rightarrow> AList.update ''viewer'' v output | None \<Rightarrow> output);
          output =
            (if action = ''remove''
             then AList.delete (getName model) (AList.update ''removedId'' removedIdField output)
             else output)
      in \<lparr>config_name = capitalize mutationName, inputFields = mutationFields,
          outputFields = output,
          mutateAndGetPayload = (model, ''mutateAndGetPayload'' @ capitalize action)\<rparr>)"

definition buildCRUDMutation ::
  "string \<Rightarrow> model \<Rightarrow> gql_type obj \<Rightarrow> gfield option \<Rightarrow> mutation_config obj" where
  "buildCRUDMutation action model types viewer =
     [(action @ capitalize (getName model),
       mutationWithClientMutationId (crudConfig action model types viewer))]"

subsection \<open>Resolving the output fields of a mutation\<close>

text \<open>
  The payload \<open>{result, errors}\<close> returned by a mutate handler. An identifier is a string;
  \<open>None\<close> is \<open>undefined\<close> or \<open>null\<close>.
\<close>

record mutation_result =
  result_id :: "string option"

record 'e payload =
  result :: "mutation_result option"
  errors :: "'e list option"

text \<open>
  What a resolver returns: \<open>null\<close>, the list of errors, the value of \<open>result.id\<close>, the
  promise of \<open>model.resolveOne({id: i}, ...)\<close>, the object \<open>{}\<close>, or the outcome of a
  collaborator that does not read the payload.
\<close>

datatype 'e resolved =
    Null
  | ErrorList "'e list"
  | Identifier "string option"
  | ResolveOne model string
  | EmptyObject
  | External resolver

fun resolve_payload :: "resolver \<Rightarrow> 'e payload \<Rightarrow> error + 'e resolved" where
  "resolve_payload ErrorsResolve p =
     (case errors p of
        None \<Rightarrow> Inr Null
      | Some es \<Rightarrow> if length es \<noteq> 0 then Inr (ErrorList es) else Inr Null)"
| "resolve_payload (SuccessResolve m) p =
     (case result p of
        None \<Rightarrow> Inr Null
      | Some r \<Rightarrow>
          if \<not> truthy (result_id r) then Inr Null
          else Inr (ResolveOne m (toString (result_id r))))"
| "resolve_payload RemovedIdResolve p =
     (case result p of
        None \<Rightarrow> Inl (TypeError ''id'')
      | Some r \<Rightarrow> Inr (Identifier (result_id r)))"
| "resolve_payload ViewerResolve p = Inr EmptyObject"
| "resolve_payload r p = Inr (External r)"

subsection \<open>\<open>createGraphqlSchema\<close>\<close>

text \<open>
  The first loop: the viewer model, the placeholders \<open>modelFields[name] = {}\<close> and the
  types \<open>modelTypes[name]\<close>. The state is \<open>(viewerModel, modelFields, modelTypes)\<close>.
\<close>

type_synonym prepared = "model option \<times> gfield obj obj \<times> gql_type obj"

fun prepare_loop :: "models \<Rightarrow> prepared \<Rightarrow> prepared" where
  "prepare_loop [] st = st"
| "prepare_loop ((className, None) # rest) st = prepare_loop rest st"
| "prepare_loop ((className, Some model) # rest) (viewerModel, modelFields, modelTypes) =
     prepare_loop rest
       (if isViewer model then Some model else viewerModel,
        AList.update (getName model) [] modelFields,
        AList.update (getName model) (ModelType (getName model)) modelTypes)"

text \<open>
  The second loop fills \<open>modelFields\<close>, \<open>viewerFields\<close> and \<open>queryFields\<close>. \<open>pluralize\<close> is
  the function of the package of that name.
\<close>

type_synonym filled = "gfield obj obj \<times> gfield obj \<times> gfield obj"

fun fill_loop ::
  "(string \<Rightarrow> string) \<Rightarrow> models \<Rightarrow> gql_type obj \<Rightarrow> models \<Rightarrow> filled \<Rightarrow> error + filled"
where
  "fill_loop pluralize this_models modelTypes [] st = Inr st"
| "fill_loop pluralize this_models modelTypes ((className, None) # rest) st =
     fill_loop pluralize this_models modelTypes rest st"
| "fill_loop pluralize this_models modelTypes ((className, Some model) # rest)
     (modelFields, viewerFields, queryFields) =
     (case schemaToGraphqlFields this_models (schema model) modelTypes of
        Inl e \<Rightarrow> Inl e
      | Inr flds \<Rightarrow>
          (case map_of modelTypes (getName model) of
             None \<Rightarrow> Inl (TypeError ''name'')
           | Some graphqlType \<Rightarrow>
               (case wrapTypeIntoConnection this_models graphqlType ''viewer'' of
                  Inl e \<Rightarrow> Inl e
                | Inr connection \<Rightarrow>
                    fill_loop pluralize this_models modelTypes rest
                      (AList.update (getName model) flds modelFields,
                       AList.update (''all'' @ capitalize (pluralize (getName model)))
                         connection viewerFields,
                       AList.update (''get'' @ capitalize (getName model))
                         \<lparr>gtype = Some graphqlType, args = Some (GraphqlItemArgs model),
                          resolve = Some (ResolveItem model)\<rparr>
                         queryFields))))"

text \<open>The third loop: the three mutations of every model.\<close>

fun mutations_loop ::
  "models \<Rightarrow> gql_type obj \<Rightarrow> gfield option \<Rightarrow> mutation_config obj \<Rightarrow> mutation_config obj"
where
  "mutations_loop [] modelTypes viewer mutationFields = mutationFields"
| "mutations_loop ((className, None) # rest) modelTypes viewer mutationFields =
     mutations_loop rest modelTypes viewer mutationFields"
| "mutations_loop ((className, Some model) # rest) modelTypes viewer mutationFields =
     mutations_loop rest modelTypes viewer
       (object_assign
          (object_assign
             (object_assign mutationFields (buildCRUDMutation ''create'' model modelTypes viewer))
             (buildCRUDMutation ''update'' model modelTypes viewer))
          (buildCRUDMutation ''remove'' model modelTypes viewer))"

text \<open>
  The compiled schema: the fields of the root types \<open>Query\<close> and \<open>Mutation\<close>, and the
  objects \<open>modelFields\<close> and \<open>viewerFields\<close> that the field thunks of the model types and
  of the viewer type return.
\<close>

record graphql_schema =
  query_fields :: "gfield obj"
  mutation_fields :: "mutation_config obj"
  model_fields :: "gfield obj obj"
  viewer_fields :: "gfield obj"

text \<open>The object \<open>viewer\<close>: the field of the viewer root.\<close>

definition viewerField :: gfield where
  "viewerField = \<lparr>gtype = Some ViewerType, args = None, resolve = Some ViewerResolve\<rparr>"

definition nodeField :: gfield where
  "nodeField = \<lparr>gtype = Some NodeInterface, args = Some NodeArgs, resolve = Some ResolveNode\<rparr>"

text \<open>
  \<open>this.models\<close> is the argument \<open>models\<close>: \<open>start\<close> assigns the registry to \<open>this.models\<close>
  and passes it to \<open>createGraphqlSchema\<close>.

  The result \<open>Inr\<close> is the configuration that the code hands to \<open>new GraphQLSchema\<close>. That
  constructor is not part of the embedding, and it throws on some of these
  configurations: a field without a type (the field \<open>user\<close> of the viewer root when a
  model is flagged as viewer and no model is named \<open>user\<close>), two types with one name (a
  model named \<open>viewer\<close>), a root type without fields (a registry without a model). A
  statement that assumes \<open>createGraphqlSchema ... = Inr out\<close> therefore covers every schema
  that the code returns; the closed statements about a compiled schema are made on
  registries that have none of these.
\<close>

definition createGraphqlSchema :: "(string \<Rightarrow> string) \<Rightarrow> models \<Rightarrow> error + graphql_schema" where
  "createGraphqlSchema pluralize models =
     (let queryFields = [(''node'', nodeField)];
          (viewerModel, modelFields, modelTypes) = prepare_loop models (None, [], []);
          viewerFields = [(''id'', globalIdField ''user'' None)];
          viewerFields =
            (case viewerModel of
               Some vm \<Rightarrow>
                 AList.update ''user''
                   \<lparr>gtype = map_of modelTypes ''user'', args = None,
                    resolve = Some (ResolveViewer vm)\<rparr>
                   viewerFields
             | None \<Rightarrow> viewerFields)
      in case fill_loop pluralize models modelTypes models (modelFields, viewerFields, queryFields) of
           Inl e \<Rightarrow> Inl e
         | Inr (modelFields, viewerFields, queryFields) \<Rightarrow>
             (let viewer =
                    (if length (map fst viewerFields) \<noteq> 0 then Some viewerField else None);
                  mutationFields = mutations_loop models modelTypes viewer [];
                  queryFields =
                    (case viewer of
                       Some v \<Rightarrow> AList.update ''viewer'' v queryFields
                     | None \<Rightarrow> queryFields)
              in Inr \<lparr>query_fields = queryFields, mutation_fields = mutationFields,
                      model_fields = modelFields, viewer_fields = viewerFields\<rparr>))"

subsection \<open>Notions used in the statements\<close>

text \<open>The models of a registry that have \<open>getName\<close>, in the order of the loops.\<close>

fun registered :: "models \<Rightarrow> model list" where
  "registered [] = []"
| "registered ((className, None) # rest) = registered rest"
| "registered ((className, Some model) # rest) = model # registered rest"

subsection \<open>Example registries\<close>

text \<open>
  The models \<open>Post{id, title, authorId}\<close> and \<open>User{id, name}\<close>, the second one flagged as
  viewer, and variations of them. \<open>pluralize_s\<close> stands for \<open>pluralize\<close> on these names,
  whose plural is regular.
\<close>

definition pluralize_s :: "string \<Rightarrow> string" where
  "pluralize_s n = n @ ''s''"

definition scalar :: "prop_type \<Rightarrow> property" where
  "scalar t = \<lparr>ptype = t, relation = None, ref = None, foreignKeyFor = None\<rparr>"

definition relationTo :: "string \<Rightarrow> string \<Rightarrow> property" where
  "relationTo kind target =
     \<lparr>ptype = TypeOther, relation = Some kind, ref = Some target, foreignKeyFor = None\<rparr>"

definition postSchema :: model_schema where
  "postSchema =
     \<lparr>name = ''Post'',
      properties =
        [(''id'', scalar TypeId), (''title'', scalar TypeString),
         (''authorId'', (scalar TypeId)\<lparr>foreignKeyFor := Some ''User''\<rparr>)],
      resolvers = []\<rparr>"

definition userSchema :: model_schema where
  "userSchema =
     \<lparr>name = ''User'',
      properties = [(''id'', scalar TypeId), (''name'', scalar TypeString)],
      resolvers = []\<rparr>"

definition postModel :: model where
  "postModel = \<lparr>getName = ''Post'', isViewer = False, schema = postSchema\<rparr>"

definition userModel :: model where
  "userModel = \<lparr>getName = ''User'', isViewer = True, schema = userSchema\<rparr>"

definition exampleModels :: models where
  "exampleModels = [(''Post'', Some postModel), (''User'', Some userModel)]"

text \<open>A schema with one relation property \<open>prop\<close> next to its \<open>id\<close>.\<close>

definition relationSchema :: "string \<Rightarrow> string \<Rightarrow> property \<Rightarrow> model_schema" where
  "relationSchema n prop field =
     \<lparr>name = n, properties = [(''id'', scalar TypeId), (prop, field)], resolvers = []\<rparr>"

definition relationModel :: "string \<Rightarrow> string \<Rightarrow> property \<Rightarrow> model" where
  "relationModel n prop field =
     \<lparr>getName = n, isViewer = False, schema = relationSchema n prop field\<rparr>"


text \<open>
  Registries on which the closed statements about a compiled schema are made. The field
  \<open>user\<close> of the viewer root has the type \<open>modelTypes.user\<close>, so a registry with a viewer
  model has a model named \<open>user\<close>; \<open>plainModels\<close> has no viewer model.
\<close>

definition plainModels :: models where
  "plainModels = [(''Post'', Some postModel), (''User'', Some (userModel\<lparr>isViewer := False\<rparr>))]"

definition viewerModelNamed :: "string \<Rightarrow> model" where
  "viewerModelNamed n =
     \<lparr>getName = n, isViewer = True,
      schema =
        \<lparr>name = n, properties = [(''id'', scalar TypeId), (''name'', scalar TypeString)],
         resolvers = []\<rparr>\<rparr>"

section \<open>Properties of the loops\<close>

lemmas capitalize_defs =
  capitalize_def upperFirst_def toUpperCase_def toLowerCase_def lowerLetters_def upperLetters_def

subsection \<open>Objects\<close>

lemma set_update_cases:
  "(k', v') \<in> set (AList.update k v al) \<Longrightarrow> (k', v') = (k, v) \<or> (k', v') \<in> set al"
  by (induction al) (auto split: if_splits)

lemma distinct_map_of_unique:
  assumes "distinct (map fst ps)" and "map_of ps k = Some v" and "(k, w) \<in> set ps"
  shows "w = v"
proof -
  from assms(1) assms(3) have "map_of ps k = Some w" by (rule map_of_is_SomeI)
  with assms(2) show ?thesis by simp
qed

lemma set_registered:
  "set (registered models) = {m. \<exists>className. (className, Some m) \<in> set models}"
  by (induction models rule: registered.induct) auto

subsection \<open>Property loops\<close>

lemma map_of_mutationFields_loop:
  "distinct (map fst ps) \<Longrightarrow>
   map_of (mutationFields_loop s ps acc) p =
     (case map_of ps p of
        None \<Rightarrow> map_of acc p
      | Some f \<Rightarrow> if truthy (relation f) then map_of acc p else Some (inputField p f s))"
proof (induction ps arbitrary: acc)
  case Nil
  then show ?case by simp
next
  case (Cons a ps)
  obtain q f where a: "a = (q, f)" by (cases a)
  from Cons.prems a have q: "map_of ps q = None" and d: "distinct (map fst ps)"
    by (auto simp add: map_of_eq_None_iff)
  show ?case
    using Cons.IH [OF d] q
    by (auto simp add: a update_conv' split: option.splits)
qed

lemma hasManyField_Inl:
  assumes "\<forall>m. map_of ms (toString (ref f)) \<noteq> Some (Some m)"
  shows "\<exists>e. hasManyField ms s types p f = Inl e"
  using assms
  by (auto simp add: hasManyField_def getGraphqlListArgs_of_def Let_def split: option.splits)

lemma hasManyField_Inr:
  assumes "hasManyField ms s types p f = Inr g"
  shows "\<exists>m. map_of ms (toString (ref f)) = Some (Some m) \<and>
     g = \<lparr>gtype = Some (relayConnection (name s @ ''_'' @ p @ ''Connection'')
                        (relayEdge (name s @ ''_'' @ p @ ''Edge'')
                           (map_of types (toString (ref f))))),
          args = Some (GraphqlListArgs m),
          resolve = Some (ResolveHasMany (toString (ref f)) f)\<rparr>"
  using assms
  by (auto simp add: hasManyField_def getGraphqlListArgs_of_def Let_def
      split: option.splits sum.splits)

lemma isl_graphqlFields_loop:
  assumes "(p, f) \<in> set ps" and "relation f = Some ''hasMany''"
      and "\<forall>m. map_of ms (toString (ref f)) \<noteq> Some (Some m)"
  shows "\<exists>e. graphqlFields_loop ms s types ps acc = Inl e"
  using assms(1)
proof (induction ps arbitrary: acc)
  case Nil
  then show ?case by simp
next
  case (Cons a ps)
  obtain q g where a: "a = (q, g)" by (cases a)
  show ?case
  proof (cases "(p, f) = (q, g)")
    case True
    from hasManyField_Inl [OF assms(3)] obtain e where "hasManyField ms s types p f = Inl e"
      by blast
    with True assms(2) show ?thesis
      by (auto simp add: a truthy_def)
  next
    case False
    with Cons.prems a have "(p, f) \<in> set ps" by auto
    from Cons.IH [OF this]
    show ?thesis
      by (auto simp add: a split: sum.splits)
  qed
qed

lemma map_of_graphqlFields_loop:
  "distinct (map fst ps) \<Longrightarrow> graphqlFields_loop ms s types ps acc = Inr fs \<Longrightarrow>
   map_of fs p =
     (case map_of ps p of
        None \<Rightarrow> map_of acc p
      | Some f \<Rightarrow>
          if truthy (relation f) then
            (if relation f = Some ''hasMany''
             then (case hasManyField ms s types p f of Inl e \<Rightarrow> None | Inr g \<Rightarrow> Some g)
             else map_of acc p)
          else Some (queryField p f s))"
proof (induction ps arbitrary: acc)
  case Nil
  then show ?case by simp
next
  case (Cons a ps)
  obtain q f where a: "a = (q, f)" by (cases a)
  from Cons.prems a have q: "map_of ps q = None" and d: "distinct (map fst ps)"
    by (auto simp add: map_of_eq_None_iff)
  show ?case
  proof (cases "truthy (relation f)")
    case False
    with Cons.prems(2) a
    have "graphqlFields_loop ms s types ps (AList.update q (queryField q f s) acc) = Inr fs"
      by simp
    from Cons.IH [OF d this] q False show ?thesis
      by (auto simp add: a update_conv' split: option.splits)
  next
    case True
    show ?thesis
    proof (cases "relation f = Some ''hasMany''")
      case False
      with True Cons.prems(2) a
      have "graphqlFields_loop ms s types ps acc = Inr fs"
        by simp
      from Cons.IH [OF d this] q True False show ?thesis
        by (auto simp add: a split: option.splits)
    next
      case hm: True
      with True Cons.prems(2) a
      obtain g where g: "hasManyField ms s types q f = Inr g"
        and r: "graphqlFields_loop ms s types ps (AList.update q g acc) = Inr fs"
        by (auto split: sum.splits)
      from Cons.IH [OF d r] q True hm g show ?thesis
        by (auto simp add: a update_conv' split: option.splits)
    qed
  qed
qed

lemma graphqlFields_loop_skip:
  assumes "\<forall>f. (p, f) \<in> set ps \<longrightarrow> truthy (relation f) \<and> relation f \<noteq> Some ''hasMany''"
  shows "graphqlFields_loop ms s types (AList.delete p ps) acc =
         graphqlFields_loop ms s types ps acc"
  using assms
proof (induction ps arbitrary: acc)
  case Nil
  then show ?case by simp
next
  case (Cons a ps)
  obtain q f where a: "a = (q, f)" by (cases a)
  from Cons.prems have ih: "\<And>acc. graphqlFields_loop ms s types (AList.delete p ps) acc =
         graphqlFields_loop ms s types ps acc"
    by (intro Cons.IH) auto
  show ?case
  proof (cases "q = p")
    case True
    with Cons.prems a have "truthy (relation f)" "relation f \<noteq> Some ''hasMany''" by auto
    then show ?thesis using True ih by (simp add: a)
  next
    case False
    then show ?thesis using ih by (simp add: a split: sum.splits)
  qed
qed

lemma hasManyField_schema:
  "hasManyField ms (s\<lparr>properties := ps'\<rparr>) types p f = hasManyField ms s types p f"
  by (simp add: hasManyField_def)

lemma fieldToGraphqlType_schema:
  "fieldToGraphqlType p f (s\<lparr>properties := ps'\<rparr>) = fieldToGraphqlType p f s"
  by (cases "ptype f") (simp_all add: fieldToGraphqlType_def)

lemma queryField_schema:
  "queryField p f (s\<lparr>properties := ps'\<rparr>) = queryField p f s"
  by (simp add: queryField_def fieldToGraphqlType_schema)

lemma graphqlFields_loop_schema:
  "graphqlFields_loop ms (s\<lparr>properties := ps'\<rparr>) types ps acc =
   graphqlFields_loop ms s types ps acc"
proof (induction ps arbitrary: acc)
  case Nil
  then show ?case by simp
next
  case (Cons a ps)
  obtain q f where a: "a = (q, f)" by (cases a)
  show ?case
    unfolding a graphqlFields_loop.simps hasManyField_schema queryField_schema Cons.IH
    by (rule refl)
qed

subsection \<open>Model loops\<close>

lemma prepare_loop_viewer:
  "fst (prepare_loop ms (v, mf, mt)) =
     (if filter isViewer (registered ms) = [] then v
      else Some (last (filter isViewer (registered ms))))"
proof (induction ms arbitrary: v mf mt)
  case Nil
  then show ?case by (simp add:)
next
  case (Cons a ms)
  obtain k mo where a: "a = (k, mo)" by (cases a)
  show ?case
  proof (cases mo)
    case None
    then show ?thesis using Cons.IH by (simp add: a)
  next
    case (Some m)
    then show ?thesis using Cons.IH by (simp add: a)
  qed
qed

lemma prepare_loop_types:
  "map_of (snd (snd (prepare_loop ms (v, mf, mt)))) n =
     (if n \<in> getName ` set (registered ms) then Some (ModelType n) else map_of mt n)"
proof (induction ms arbitrary: v mf mt)
  case Nil
  then show ?case by simp
next
  case (Cons a ms)
  obtain k mo where a: "a = (k, mo)" by (cases a)
  show ?case
  proof (cases mo)
    case None
    then show ?thesis using Cons.IH by (simp add: a)
  next
    case (Some m)
    then show ?thesis using Cons.IH by (auto simp add: a update_conv')
  qed
qed

lemma fill_loop_viewer_entries:
  assumes "fill_loop pl tm mt ms (mf, vf, qf) = Inr (mf', vf', qf')" and "(k, f) \<in> set vf'"
  shows "(k, f) \<in> set vf \<or>
     (\<exists>m t. m \<in> set (registered ms) \<and> map_of mt (getName m) = Some t \<and>
        k = ''all'' @ capitalize (pl (getName m)) \<and>
        wrapTypeIntoConnection tm t ''viewer'' = Inr f)"
  using assms
proof (induction ms arbitrary: mf vf qf)
  case Nil
  then show ?case by simp
next
  case (Cons a ms)
  obtain cn mo where a: "a = (cn, mo)" by (cases a)
  show ?case
  proof (cases mo)
    case None
    then show ?thesis using Cons by (simp add: a)
  next
    case (Some m)
    with Cons.prems(1) a obtain mf1 qf1 c t where
      step: "fill_loop pl tm mt ms
         (mf1, AList.update (''all'' @ capitalize (pl (getName m))) c vf, qf1) =
         Inr (mf', vf', qf')"
      and t: "map_of mt (getName m) = Some t"
      and c: "wrapTypeIntoConnection tm t ''viewer'' = Inr c"
      by (auto split: sum.splits option.splits)
    from Cons.IH [OF step Cons.prems(2)]
    show ?thesis
    proof
      assume "(k, f) \<in> set (AList.update (''all'' @ capitalize (pl (getName m))) c vf)"
      from set_update_cases [OF this] t c show ?thesis
        by (auto simp add: a Some)
    next
      assume "\<exists>m t. m \<in> set (registered ms) \<and> map_of mt (getName m) = Some t \<and>
        k = ''all'' @ capitalize (pl (getName m)) \<and>
        wrapTypeIntoConnection tm t ''viewer'' = Inr f"
      then show ?thesis by (auto simp add: a Some)
    qed
  qed
qed

lemma prepare_loop_fields:
  "map_of (fst (snd (prepare_loop ms (v, mf, mt)))) n = Some x \<Longrightarrow>
   n \<in> getName ` set (registered ms) \<or> map_of mf n = Some x"
proof (induction ms arbitrary: v mf mt)
  case Nil
  then show ?case by simp
next
  case (Cons a ms)
  obtain k mo where a: "a = (k, mo)" by (cases a)
  show ?case
  proof (cases mo)
    case None
    then show ?thesis using Cons by (simp add: a)
  next
    case (Some m)
    with Cons.prems a have "map_of (fst (snd (prepare_loop ms
        (if isViewer m then Some m else v, AList.update (getName m) [] mf,
         AList.update (getName m) (ModelType (getName m)) mt)))) n = Some x"
      by simp
    from Cons.IH [OF this] show ?thesis
      by (auto simp add: a Some update_conv' split: if_splits)
  qed
qed

lemma fill_loop_modelFields:
  assumes "fill_loop pl tm mt ms (mf, vf, qf) = Inr (mf', vf', qf')"
    and "map_of mf' n = Some flds"
  shows "(n \<notin> getName ` set (registered ms) \<and> map_of mf n = Some flds) \<or>
     (\<exists>m. m \<in> set (registered ms) \<and> getName m = n \<and>
        schemaToGraphqlFields tm (schema m) mt = Inr flds)"
  using assms
proof (induction ms arbitrary: mf vf qf)
  case Nil
  then show ?case by simp
next
  case (Cons a ms)
  obtain cn mo where a: "a = (cn, mo)" by (cases a)
  show ?case
  proof (cases mo)
    case None
    then show ?thesis using Cons by (simp add: a)
  next
    case (Some m)
    with Cons.prems(1) a obtain vf1 qf1 fs where
      step: "fill_loop pl tm mt ms (AList.update (getName m) fs mf, vf1, qf1) =
         Inr (mf', vf', qf')"
      and fs: "schemaToGraphqlFields tm (schema m) mt = Inr fs"
      by (auto split: sum.splits option.splits)
    from Cons.IH [OF step Cons.prems(2)]
    show ?thesis
    proof
      assume "n \<notin> getName ` set (registered ms) \<and>
        map_of (AList.update (getName m) fs mf) n = Some flds"
      with fs show ?thesis
        by (auto simp add: a Some update_conv' split: if_splits)
    next
      assume "\<exists>m. m \<in> set (registered ms) \<and> getName m = n \<and>
        schemaToGraphqlFields tm (schema m) mt = Inr flds"
      then show ?thesis by (auto simp add: a Some)
    qed
  qed
qed

lemma fill_loop_viewerFields:
  "fill_loop pl tm mt ms (mf, vf, qf) = Inr (mf', vf', qf') \<Longrightarrow>
   map_of vf' ''id'' = map_of vf ''id'' \<and> map_of vf' ''user'' = map_of vf ''user'' \<and>
   (vf \<noteq> [] \<longrightarrow> vf' \<noteq> [])"
proof (induction ms arbitrary: mf vf qf)
  case Nil
  then show ?case by simp
next
  case (Cons a ms)
  obtain k mo where a: "a = (k, mo)" by (cases a)
  show ?case
  proof (cases mo)
    case None
    then show ?thesis using Cons by (simp add: a)
  next
    case (Some m)
    with Cons.prems a obtain mf1 vf1 qf1 c where
      step: "fill_loop pl tm mt ms (mf1, vf1, qf1) = Inr (mf', vf', qf')"
      and vf1: "vf1 = AList.update (''all'' @ capitalize (pl (getName m))) c vf"
      by (auto split: sum.splits option.splits)
    from Cons.IH [OF step] show ?thesis
      by (simp add: vf1 update_conv')
  qed
qed

lemma fill_loop_fails:
  assumes "(k, Some m) \<in> set ms" and "schemaToGraphqlFields tm (schema m) mt = Inl e"
  shows "\<exists>e'. fill_loop pl tm mt ms st = Inl e'"
  using assms(1)
proof (induction ms arbitrary: st)
  case Nil
  then show ?case by simp
next
  case (Cons a ms)
  obtain k' mo where a: "a = (k', mo)" by (cases a)
  obtain mf vf qf where st: "st = (mf, vf, qf)" by (cases st)
  show ?case
  proof (cases "a = (k, Some m)")
    case True
    then show ?thesis using assms(2) by (simp add: st)
  next
    case False
    with Cons.prems have "(k, Some m) \<in> set ms" by auto
    from Cons.IH [OF this] show ?thesis
      by (cases mo) (auto simp add: a st split: sum.splits option.splits)
  qed
qed

lemma mutations_loop_keys:
  "fst ` set (mutations_loop ms mt v acc) =
     fst ` set acc \<union>
     (\<Union>m \<in> set (registered ms).
        {''create'' @ capitalize (getName m), ''update'' @ capitalize (getName m),
         ''remove'' @ capitalize (getName m)})"
proof (induction ms arbitrary: acc)
  case Nil
  then show ?case by (simp add:)
next
  case (Cons a ms)
  obtain k mo where a: "a = (k, mo)" by (cases a)
  show ?case
  proof (cases mo)
    case None
    then show ?thesis using Cons.IH by (simp add: a)
  next
    case (Some m)
    show ?thesis
      unfolding a Some mutations_loop.simps Cons.IH
      by (auto simp add: object_assign_def
          buildCRUDMutation_def dom_update)
  qed
qed

lemma mutations_loop_entries:
  assumes "(k, c) \<in> set (mutations_loop ms mt v acc)"
  shows "(k, c) \<in> set acc \<or>
     (\<exists>a m. a \<in> {''create'', ''update'', ''remove''} \<and> m \<in> set (registered ms) \<and>
        k = a @ capitalize (getName m) \<and> c = crudConfig a m mt v)"
  using assms
proof (induction ms arbitrary: acc)
  case Nil
  then show ?case by simp
next
  case (Cons a ms)
  obtain cn mo where a: "a = (cn, mo)" by (cases a)
  show ?case
  proof (cases mo)
    case None
    then show ?thesis using Cons by (simp add: a)
  next
    case (Some m)
    let ?acc1 = "AList.update (''create'' @ capitalize (getName m)) (crudConfig ''create'' m mt v) acc"
    let ?acc2 = "AList.update (''update'' @ capitalize (getName m)) (crudConfig ''update'' m mt v) ?acc1"
    let ?acc3 = "AList.update (''remove'' @ capitalize (getName m)) (crudConfig ''remove'' m mt v) ?acc2"
    from Cons.prems a Some have "(k, c) \<in> set (mutations_loop ms mt v ?acc3)"
      by (simp add: object_assign_def buildCRUDMutation_def mutationWithClientMutationId_def)
    from Cons.IH [OF this]
    show ?thesis
    proof
      assume "(k, c) \<in> set ?acc3"
      then consider
          (rm) "k = ''remove'' @ capitalize (getName m)" "c = crudConfig ''remove'' m mt v"
        | (up) "k = ''update'' @ capitalize (getName m)" "c = crudConfig ''update'' m mt v"
        | (cr) "k = ''create'' @ capitalize (getName m)" "c = crudConfig ''create'' m mt v"
        | (old) "(k, c) \<in> set acc"
        by (blast dest: set_update_cases)
      then show ?thesis
      proof cases
        case rm
        then show ?thesis
          by (intro disjI2 exI [of _ "''remove''"] exI [of _ m]) (simp add: a Some)
      next
        case up
        then show ?thesis
          by (intro disjI2 exI [of _ "''update''"] exI [of _ m]) (simp add: a Some)
      next
        case cr
        then show ?thesis
          by (intro disjI2 exI [of _ "''create''"] exI [of _ m]) (simp add: a Some)
      next
        case old
        then show ?thesis by simp
      qed
    next
      assume "\<exists>a m. a \<in> {''create'', ''update'', ''remove''} \<and> m \<in> set (registered ms) \<and>
        k = a @ capitalize (getName m) \<and> c = crudConfig a m mt v"
      then obtain a' m' where "a' \<in> {''create'', ''update'', ''remove''}"
        "m' \<in> set (registered ms)" "k = a' @ capitalize (getName m')"
        "c = crudConfig a' m' mt v"
        by blast
      then show ?thesis
        by (intro disjI2 exI [of _ a'] exI [of _ m']) (simp add: a Some)
    qed
  qed
qed

lemma mutations_loop_names:
  assumes "\<forall>(k, c) \<in> set acc. config_name c = capitalize k"
  shows "\<forall>(k, c) \<in> set (mutations_loop ms mt v acc). config_name c = capitalize k"
  using assms
proof (induction ms arbitrary: acc)
  case Nil
  then show ?case by simp
next
  case (Cons a ms)
  obtain k mo where a: "a = (k, mo)" by (cases a)
  show ?case
  proof (cases mo)
    case None
    then show ?thesis using Cons by (simp add: a)
  next
    case (Some m)
    have "\<forall>(k, c) \<in> set (object_assign
          (object_assign
             (object_assign acc (buildCRUDMutation ''create'' m mt v))
             (buildCRUDMutation ''update'' m mt v))
          (buildCRUDMutation ''remove'' m mt v)). config_name c = capitalize k"
      using Cons.prems
      by (auto simp add: object_assign_def buildCRUDMutation_def crudConfig_def
          mutationWithClientMutationId_def Let_def dest!: set_update_cases)
    from Cons.IH [OF this] show ?thesis by (simp add: a Some)
  qed
qed

subsection \<open>The compiled schema\<close>

lemma createGraphqlSchema_Inr:
  assumes "createGraphqlSchema pl models = Inr out"
  shows "map_of (query_fields out) ''viewer'' = Some viewerField"
    and "map_of (viewer_fields out) ''id'' = Some (globalIdField ''user'' None)"
    and "map_option resolve (map_of (viewer_fields out) ''user'') =
           (if filter isViewer (registered models) = [] then None
            else Some (Some (ResolveViewer (last (filter isViewer (registered models))))))"
    and "mutation_fields out =
           mutations_loop models (snd (snd (prepare_loop models (None, [], []))))
             (Some viewerField) []"
    and "\<forall>k f. (k, f) \<in> set (viewer_fields out) \<longrightarrow> k \<noteq> ''id'' \<longrightarrow> k \<noteq> ''user'' \<longrightarrow>
           (\<exists>m. m \<in> set (registered models) \<and> k = ''all'' @ capitalize (pl (getName m)) \<and>
              wrapTypeIntoConnection models (ModelType (getName m)) ''viewer'' = Inr f)"
    and "\<forall>n flds. map_of (model_fields out) n = Some flds \<longrightarrow>
           (\<exists>m. m \<in> set (registered models) \<and> getName m = n \<and>
              schemaToGraphqlFields models (schema m)
                (snd (snd (prepare_loop models (None, [], [])))) = Inr flds)"
proof -
  obtain vm mf0 mt where prep: "prepare_loop models (None, [], []) = (vm, mf0, mt)"
    by (cases "prepare_loop models (None, [], [])")
  have vm: "vm = (if filter isViewer (registered models) = [] then None
      else Some (last (filter isViewer (registered models))))"
    using prepare_loop_viewer [of models None "[]" "[]"] prep by simp
  define vf0 where "vf0 = (case vm of
               Some vm \<Rightarrow>
                 AList.update ''user''
                   \<lparr>gtype = map_of mt ''user'', args = None,
                    resolve = Some (ResolveViewer vm)\<rparr>
                   [(''id'', globalIdField ''user'' None)]
             | None \<Rightarrow> [(''id'', globalIdField ''user'' None)])"
  from assms prep obtain mf vf qf where
    fill: "fill_loop pl models mt models (mf0, vf0, [(''node'', nodeField)]) = Inr (mf, vf, qf)"
    by (auto simp add: createGraphqlSchema_def vf0_def Let_def split: sum.splits)
  have vf0: "vf0 \<noteq> []" by (simp add: vf0_def split: option.splits)
  from fill_loop_viewerFields [OF fill] vf0
  have keep: "map_of vf ''id'' = map_of vf0 ''id''" "map_of vf ''user'' = map_of vf0 ''user''"
    "vf \<noteq> []" by simp_all
  from assms prep fill keep(3)
  have out: "out = \<lparr>query_fields = AList.update ''viewer'' viewerField qf,
      mutation_fields = mutations_loop models mt (Some viewerField) [],
      model_fields = mf, viewer_fields = vf\<rparr>"
    by (simp add: createGraphqlSchema_def vf0_def Let_def)
  show "map_of (query_fields out) ''viewer'' = Some viewerField"
    by (simp add: out update_conv')
  show "map_of (viewer_fields out) ''id'' = Some (globalIdField ''user'' None)"
    by (simp add: out keep vf0_def update_conv' split: option.splits)
  show "map_option resolve (map_of (viewer_fields out) ''user'') =
           (if filter isViewer (registered models) = [] then None
            else Some (Some (ResolveViewer (last (filter isViewer (registered models))))))"
    by (simp add: out keep vf0_def vm update_conv')
  show "mutation_fields out =
           mutations_loop models (snd (snd (prepare_loop models (None, [], []))))
             (Some viewerField) []"
    by (simp add: out prep)
  have mt: "map_of mt n = Some t \<Longrightarrow> t = ModelType n" for n t
    using prepare_loop_types [of models None "[]" "[]" n] prep
    by (simp split: if_splits)
  have vf0_keys: "(k, f) \<in> set vf0 \<Longrightarrow> k = ''id'' \<or> k = ''user''" for k f
    by (auto simp add: vf0_def split: option.splits)
  show "\<forall>k f. (k, f) \<in> set (viewer_fields out) \<longrightarrow> k \<noteq> ''id'' \<longrightarrow> k \<noteq> ''user'' \<longrightarrow>
           (\<exists>m. m \<in> set (registered models) \<and> k = ''all'' @ capitalize (pl (getName m)) \<and>
              wrapTypeIntoConnection models (ModelType (getName m)) ''viewer'' = Inr f)"
  proof (intro allI impI)
    fix k f
    assume kf: "(k, f) \<in> set (viewer_fields out)" and "k \<noteq> ''id''" and "k \<noteq> ''user''"
    from kf have "(k, f) \<in> set vf" by (simp add: out)
    from fill_loop_viewer_entries [OF fill this] vf0_keys \<open>k \<noteq> ''id''\<close> \<open>k \<noteq> ''user''\<close>
    obtain m t where "m \<in> set (registered models)" "map_of mt (getName m) = Some t"
      "k = ''all'' @ capitalize (pl (getName m))"
      "wrapTypeIntoConnection models t ''viewer'' = Inr f"
      by blast
    with mt show "\<exists>m. m \<in> set (registered models) \<and>
        k = ''all'' @ capitalize (pl (getName m)) \<and>
        wrapTypeIntoConnection models (ModelType (getName m)) ''viewer'' = Inr f"
      by blast
  qed
  have mf0: "map_of mf0 n = Some x \<Longrightarrow> n \<in> getName ` set (registered models)" for n x
    using prepare_loop_fields [of models None "[]" "[]" n x] prep by simp
  show "\<forall>n flds. map_of (model_fields out) n = Some flds \<longrightarrow>
           (\<exists>m. m \<in> set (registered models) \<and> getName m = n \<and>
              schemaToGraphqlFields models (schema m)
                (snd (snd (prepare_loop models (None, [], [])))) = Inr flds)"
  proof (intro allI impI)
    fix n flds
    assume "map_of (model_fields out) n = Some flds"
    then have "map_of mf n = Some flds" by (simp add: out)
    from fill_loop_modelFields [OF fill this] mf0
    show "\<exists>m. m \<in> set (registered models) \<and> getName m = n \<and>
              schemaToGraphqlFields models (schema m)
                (snd (snd (prepare_loop models (None, [], [])))) = Inr flds"
      by (auto simp add: prep)
  qed
qed

lemma createGraphqlSchema_Inl:
  assumes "(k, Some m) \<in> set models"
    and "schemaToGraphqlFields models (schema m)
           (snd (snd (prepare_loop models (None, [], [])))) = Inl e"
  shows "\<exists>e'. createGraphqlSchema pl models = Inl e'"
proof -
  obtain vm mf0 mt where prep: "prepare_loop models (None, [], []) = (vm, mf0, mt)"
    by (cases "prepare_loop models (None, [], [])")
  from assms(2) prep have "schemaToGraphqlFields models (schema m) mt = Inl e" by simp
  from fill_loop_fails [OF assms(1) this]
  obtain e' where "fill_loop pl models mt models
     (mf0,
      case vm of
        None \<Rightarrow> [(''id'', globalIdField ''user'' None)]
      | Some vm \<Rightarrow>
          AList.update ''user''
            \<lparr>gtype = map_of mt ''user'', args = None, resolve = Some (ResolveViewer vm)\<rparr>
            [(''id'', globalIdField ''user'' None)],
      [(''node'', nodeField)]) = Inl e'"
    by blast
  then show ?thesis
    by (simp add: createGraphqlSchema_def prep Let_def)
qed

section \<open>The claims\<close>

subsection \<open>Names of the Edge and Connection types\<close>

lemma wrapTypeIntoConnection_Inr:
  assumes "wrapTypeIntoConnection this_models type parentName = Inr f"
  shows "gtype f =
     Some (relayConnection (parentName @ ''_'' @ toString (type_name type) @ ''Connection'')
             (relayEdge (parentName @ ''_'' @ toString (type_name type) @ ''Edge'')
                (Some type)))"
  using assms
  by (auto simp add: wrapTypeIntoConnection_def Let_def split: sum.splits)

lemma hasManyField_stored:
  assumes "distinct (map fst (properties schm))"
    and "schemaToGraphqlFields this_models schm types = Inr flds"
    and "map_of (properties schm) p = Some field"
    and "relation field = Some ''hasMany''"
  shows "\<exists>g. hasManyField this_models schm types p field = Inr g \<and> map_of flds p = Some g"
proof -
  have t: "truthy (relation field)" using assms(4) by (simp add: truthy_def)
  from isl_graphqlFields_loop [of p field "properties schm" this_models schm types "[]"]
    assms(2) assms(4) map_of_SomeD [OF assms(3)]
  obtain m where "map_of this_models (toString (ref field)) = Some (Some m)"
    by (auto simp add: schemaToGraphqlFields_def)
  then obtain g where g: "hasManyField this_models schm types p field = Inr g"
    by (simp add: hasManyField_def getGraphqlListArgs_of_def Let_def)
  from map_of_graphqlFields_loop [OF assms(1), of this_models schm types "[]" flds p]
    assms(2,3,4) t g
  show ?thesis by (simp add: schemaToGraphqlFields_def)
qed

lemma suffix_names_inject:
  assumes "s1 \<in> {''Edge'', ''Connection''}" and "s2 \<in> {''Edge'', ''Connection''}"
    and "e1 @ s1 = e2 @ s2"
  shows "e1 = e2 \<and> s1 = s2"
proof (cases "s1 = s2")
  case True
  with assms(3) show ?thesis by simp
next
  case False
  from assms(3) have "last (e1 @ s1) = last (e2 @ s2)" by simp
  with assms(1,2) False show ?thesis by auto
qed

lemma first_separator_inject:
  "c \<notin> set a \<Longrightarrow> c \<notin> set b \<Longrightarrow> a @ c # x = b @ c # y \<Longrightarrow> a = b \<and> x = y"
proof (induction a arbitrary: b)
  case Nil
  then show ?case by (cases b) auto
next
  case (Cons h a)
  then show ?case by (cases b) auto
qed

lemma owner_names_inject:
  assumes "CHR ''_'' \<notin> set o1" and "CHR ''_'' \<notin> set o2"
    and "s1 \<in> {''Edge'', ''Connection''}" and "s2 \<in> {''Edge'', ''Connection''}"
    and "o1 @ ''_'' @ e1 @ s1 = o2 @ ''_'' @ e2 @ s2"
  shows "o1 = o2 \<and> e1 = e2 \<and> s1 = s2"
proof -
  from assms(5) have "o1 @ CHR ''_'' # (e1 @ s1) = o2 @ CHR ''_'' # (e2 @ s2)" by simp
  with assms(1,2) have "o1 = o2 \<and> e1 @ s1 = e2 @ s2"
    by (rule first_separator_inject)
  with suffix_names_inject [OF assms(3,4)] show ?thesis by blast
qed

text \<open>
  C1, as amended. The field that \<open>wrapTypeIntoConnection\<close> returns has the Connection type
  named \<open>parentName\<close>, an underscore, the name of the element type and \<open>Connection\<close>, over
  the Edge type named in the same way with \<open>Edge\<close>; every field of the viewer root other
  than \<open>id\<close> and \<open>user\<close> is such a field for the type of a registered model and the
  parent \<open>viewer\<close>. The field of a \<open>hasMany\<close> property, which \<open>schemaToGraphqlFields\<close>
  stores under the name of the property, has the Connection and Edge types named
  \<open>schema.name\<close>, an underscore, the name of the property (not the name of the element
  type) and the suffix. Two names built in this way from owners that contain no
  underscore are equal only when the owners, the second components and the suffixes are
  equal.
\<close>

theorem connection_type_names:
  "(wrapTypeIntoConnection this_models type parentName = Inr f \<longrightarrow>
      gtype f =
        Some (relayConnection (parentName @ ''_'' @ toString (type_name type) @ ''Connection'')
                (relayEdge (parentName @ ''_'' @ toString (type_name type) @ ''Edge'')
                   (Some type))))
   \<and> (createGraphqlSchema pluralize models = Inr out \<and> (k, c) \<in> set (viewer_fields out) \<and>
       k \<noteq> ''id'' \<and> k \<noteq> ''user'' \<longrightarrow>
      (\<exists>m. m \<in> set (registered models) \<and> k = ''all'' @ capitalize (pluralize (getName m)) \<and>
         wrapTypeIntoConnection models (ModelType (getName m)) ''viewer'' = Inr c))
   \<and> (hasManyField this_models schm types p field = Inr g \<longrightarrow>
      gtype g =
        Some (relayConnection (name schm @ ''_'' @ p @ ''Connection'')
                (relayEdge (name schm @ ''_'' @ p @ ''Edge'')
                   (map_of types (toString (ref field))))))
   \<and> (distinct (map fst (properties schm)) \<and>
       schemaToGraphqlFields this_models schm types = Inr flds \<and>
       map_of (properties schm) p = Some field \<and> relation field = Some ''hasMany'' \<longrightarrow>
      (\<exists>g. hasManyField this_models schm types p field = Inr g \<and> map_of flds p = Some g))
   \<and> (CHR ''_'' \<notin> set o1 \<and> CHR ''_'' \<notin> set o2 \<and>
       s1 \<in> {''Edge'', ''Connection''} \<and> s2 \<in> {''Edge'', ''Connection''} \<and>
       o1 @ ''_'' @ e1 @ s1 = o2 @ ''_'' @ e2 @ s2 \<longrightarrow>
      o1 = o2 \<and> e1 = e2 \<and> s1 = s2)"
proof (intro conjI impI)
  assume "wrapTypeIntoConnection this_models type parentName = Inr f"
  then show "gtype f =
        Some (relayConnection (parentName @ ''_'' @ toString (type_name type) @ ''Connection'')
                (relayEdge (parentName @ ''_'' @ toString (type_name type) @ ''Edge'')
                   (Some type)))"
    by (rule wrapTypeIntoConnection_Inr)
next
  assume a: "createGraphqlSchema pluralize models = Inr out \<and> (k, c) \<in> set (viewer_fields out) \<and>
       k \<noteq> ''id'' \<and> k \<noteq> ''user''"
  then have "createGraphqlSchema pluralize models = Inr out" by simp
  from createGraphqlSchema_Inr(5) [OF this] a
  show "\<exists>m. m \<in> set (registered models) \<and> k = ''all'' @ capitalize (pluralize (getName m)) \<and>
         wrapTypeIntoConnection models (ModelType (getName m)) ''viewer'' = Inr c"
    by blast
next
  assume "hasManyField this_models schm types p field = Inr g"
  from hasManyField_Inr [OF this]
  show "gtype g =
        Some (relayConnection (name schm @ ''_'' @ p @ ''Connection'')
                (relayEdge (name schm @ ''_'' @ p @ ''Edge'')
                   (map_of types (toString (ref field)))))"
    by auto
next
  assume "distinct (map fst (properties schm)) \<and>
       schemaToGraphqlFields this_models schm types = Inr flds \<and>
       map_of (properties schm) p = Some field \<and> relation field = Some ''hasMany''"
  then show "\<exists>g. hasManyField this_models schm types p field = Inr g \<and> map_of flds p = Some g"
    using hasManyField_stored by blast
next
  assume "CHR ''_'' \<notin> set o1 \<and> CHR ''_'' \<notin> set o2 \<and>
       s1 \<in> {''Edge'', ''Connection''} \<and> s2 \<in> {''Edge'', ''Connection''} \<and>
       o1 @ ''_'' @ e1 @ s1 = o2 @ ''_'' @ e2 @ s2"
  then have "o1 = o2 \<and> e1 = e2 \<and> s1 = s2"
    using owner_names_inject by blast
  then show "o1 = o2" and "e1 = e2" and "s1 = s2" by simp_all
qed

text \<open>
  The list of all posts of the viewer root, and the posts of a user: a \<open>hasMany\<close> property
  \<open>posts\<close> of the schema \<open>User\<close> that refers to \<open>Post\<close>.
\<close>

theorem connection_type_names_witness:
  "wrapTypeIntoConnection exampleModels (ModelType ''Post'') ''viewer'' =
     Inr \<lparr>gtype = Some (relayConnection ''viewer_PostConnection''
                         (relayEdge ''viewer_PostEdge'' (Some (ModelType ''Post'')))),
          args = Some (GraphqlListArgs postModel), resolve = Some (ResolveAll ''Post'')\<rparr>
   \<and> hasManyField exampleModels (relationSchema ''User'' ''posts'' (relationTo ''hasMany'' ''Post''))
        [(''Post'', ModelType ''Post'')] ''posts'' (relationTo ''hasMany'' ''Post'') =
     Inr \<lparr>gtype = Some (relayConnection ''User_postsConnection''
                         (relayEdge ''User_postsEdge'' (Some (ModelType ''Post'')))),
          args = Some (GraphqlListArgs postModel),
          resolve = Some (ResolveHasMany ''Post'' (relationTo ''hasMany'' ''Post''))\<rparr>
   \<and> CHR ''_'' \<notin> set ''viewer'' \<and> CHR ''_'' \<notin> set ''User''
   \<and> ''viewer'' @ ''_'' @ ''Post'' @ ''Edge'' \<noteq> ''User'' @ ''_'' @ ''posts'' @ ''Edge''"
proof -
  have w: "wrapTypeIntoConnection exampleModels (ModelType ''Post'') ''viewer'' =
     Inr \<lparr>gtype = Some (relayConnection ''viewer_PostConnection''
                         (relayEdge ''viewer_PostEdge'' (Some (ModelType ''Post'')))),
          args = Some (GraphqlListArgs postModel), resolve = Some (ResolveAll ''Post'')\<rparr>"
    by (simp add: wrapTypeIntoConnection_def getGraphqlListArgs_of_def toString_def
        exampleModels_def Let_def)
  have h: "hasManyField exampleModels
        (relationSchema ''User'' ''posts'' (relationTo ''hasMany'' ''Post''))
        [(''Post'', ModelType ''Post'')] ''posts'' (relationTo ''hasMany'' ''Post'') =
     Inr \<lparr>gtype = Some (relayConnection ''User_postsConnection''
                         (relayEdge ''User_postsEdge'' (Some (ModelType ''Post'')))),
          args = Some (GraphqlListArgs postModel),
          resolve = Some (ResolveHasMany ''Post'' (relationTo ''hasMany'' ''Post''))\<rparr>"
    by (simp add: hasManyField_def getGraphqlListArgs_of_def toString_def exampleModels_def
        relationSchema_def relationTo_def Let_def)
  have u: "CHR ''_'' \<notin> set ''viewer''" "CHR ''_'' \<notin> set ''User''" by simp_all
  from connection_type_names [where ?o1.0 = "''viewer''" and ?o2.0 = "''User''"
      and ?e1.0 = "''Post''" and ?e2.0 = "''posts''" and ?s1.0 = "''Edge''" and ?s2.0 = "''Edge''"]
  have "''viewer'' @ ''_'' @ ''Post'' @ ''Edge'' \<noteq> ''User'' @ ''_'' @ ''posts'' @ ''Edge''"
    by simp
  with w h u show ?thesis by blast
qed

text \<open>
  The claim as stated fails for a \<open>hasMany\<close> property: the names of the types of the
  property \<open>blog_posts\<close> of the schema \<open>user\<close>, which refers to \<open>Post\<close>, do not end in an
  underscore, the name of the element type and the suffix, whatever the owner; and they
  are the names of the types of the property \<open>posts\<close> of the schema \<open>user_blog\<close>.
\<close>

theorem connection_type_names_counterexample:
  "map_sum id gtype
     (hasManyField exampleModels
        (relationSchema ''user'' ''blog_posts'' (relationTo ''hasMany'' ''Post''))
        [(''Post'', ModelType ''Post'')] ''blog_posts'' (relationTo ''hasMany'' ''Post'')) =
     Inr (Some (relayConnection ''user_blog_postsConnection''
                  (relayEdge ''user_blog_postsEdge'' (Some (ModelType ''Post'')))))
   \<and> map_sum id gtype
     (hasManyField exampleModels
        (relationSchema ''user_blog'' ''posts'' (relationTo ''hasMany'' ''Post''))
        [(''Post'', ModelType ''Post'')] ''posts'' (relationTo ''hasMany'' ''Post'')) =
     Inr (Some (relayConnection ''user_blog_postsConnection''
                  (relayEdge ''user_blog_postsEdge'' (Some (ModelType ''Post'')))))
   \<and> \<not> suffix (''_'' @ ''Post'' @ ''Connection'') ''user_blog_postsConnection''
   \<and> \<not> suffix (''_'' @ ''Post'' @ ''Edge'') ''user_blog_postsEdge''
   \<and> (''user'', ''blog_posts'') \<noteq> (''user_blog'', ''posts'')"
  by (simp add: hasManyField_def getGraphqlListArgs_of_def toString_def exampleModels_def
      relationSchema_def relationTo_def Let_def suffix_to_prefix)

subsection \<open>Fields of the root type \<open>Mutation\<close>\<close>

lemma action_names_inject:
  assumes "a \<in> {''create'', ''update'', ''remove''}" and "a' \<in> {''create'', ''update'', ''remove''}"
  shows "(a @ x = a' @ y) = (a = a' \<and> x = y)"
  using assms by auto

text \<open>
  C2, as amended. In a compiled schema the keys of the fields of \<open>Mutation\<close> are the
  strings \<open>action + capitalize(modelName)\<close> for the registered models and the actions
  \<open>create\<close>, \<open>update\<close> and \<open>remove\<close>: the action stays in lower case, and \<open>capitalize\<close>
  puts every character of the name after the first one in lower case. The name of the
  mutation stored under a key is \<open>capitalize\<close> of the key. The keys of two actions and
  models are equal exactly when the actions are equal and the capitalized names are.
\<close>

theorem mutation_field_names:
  assumes "createGraphqlSchema pluralize models = Inr out"
  shows "fst ` set (mutation_fields out) =
           (\<Union>m \<in> set (registered models).
              {''create'' @ capitalize (getName m), ''update'' @ capitalize (getName m),
               ''remove'' @ capitalize (getName m)})
       \<and> (\<forall>k c. (k, c) \<in> set (mutation_fields out) \<longrightarrow> config_name c = capitalize k)
       \<and> (a \<in> {''create'', ''update'', ''remove''} \<and> a' \<in> {''create'', ''update'', ''remove''} \<longrightarrow>
            (a @ capitalize n = a' @ capitalize n') = (a = a' \<and> capitalize n = capitalize n'))"
proof -
  note m = createGraphqlSchema_Inr(4) [OF assms]
  have 1: "fst ` set (mutation_fields out) =
           (\<Union>m \<in> set (registered models).
              {''create'' @ capitalize (getName m), ''update'' @ capitalize (getName m),
               ''remove'' @ capitalize (getName m)})"
    unfolding m mutations_loop_keys by simp
  have "\<forall>(k, c) \<in> set (mutation_fields out). config_name c = capitalize k"
    unfolding m by (rule mutations_loop_names) simp
  then have 2: "\<forall>k c. (k, c) \<in> set (mutation_fields out) \<longrightarrow> config_name c = capitalize k"
    by blast
  have 3: "a \<in> {''create'', ''update'', ''remove''} \<and> a' \<in> {''create'', ''update'', ''remove''} \<longrightarrow>
            (a @ capitalize n = a' @ capitalize n') = (a = a' \<and> capitalize n = capitalize n')"
    using action_names_inject [of a a' "capitalize n" "capitalize n'"] by blast
  from 1 2 3 show ?thesis by (intro conjI)
qed

text \<open>The registry of \<open>Post\<close> and \<open>User\<close>, neither of them flagged as viewer.\<close>

theorem mutation_field_names_witness:
  "map_sum id (map (\<lambda>(k, c). (k, config_name c)) \<circ> mutation_fields)
     (createGraphqlSchema pluralize_s plainModels) =
   Inr [(''createPost'', ''Createpost''), (''updatePost'', ''Updatepost''),
        (''removePost'', ''Removepost''), (''createUser'', ''Createuser''),
        (''updateUser'', ''Updateuser''), (''removeUser'', ''Removeuser'')]
   \<and> ''removeUser'' \<in>
       fst ` set (mutation_fields (projr (createGraphqlSchema pluralize_s plainModels)))"
proof -
  have e: "map_sum id (map (\<lambda>(k, c). (k, config_name c)) \<circ> mutation_fields)
     (createGraphqlSchema pluralize_s plainModels) =
   Inr [(''createPost'', ''Createpost''), (''updatePost'', ''Updatepost''),
        (''removePost'', ''Removepost''), (''createUser'', ''Createuser''),
        (''updateUser'', ''Updateuser''), (''removeUser'', ''Removeuser'')]"
    by code_simp
  then obtain out where out: "createGraphqlSchema pluralize_s plainModels = Inr out"
    by (cases "createGraphqlSchema pluralize_s plainModels") auto
  have u: "userModel\<lparr>isViewer := False\<rparr> \<in> set (registered plainModels)"
    by (simp add: plainModels_def)
  have n: "''remove'' @ capitalize (getName (userModel\<lparr>isViewer := False\<rparr>)) = ''removeUser''"
    by (simp add: userModel_def capitalize_defs)
  from mutation_field_names [OF out]
  have "fst ` set (mutation_fields out) =
           (\<Union>m \<in> set (registered plainModels).
              {''create'' @ capitalize (getName m), ''update'' @ capitalize (getName m),
               ''remove'' @ capitalize (getName m)})"
    by (rule conjunct1)
  moreover have "''remove'' @ capitalize (getName (userModel\<lparr>isViewer := False\<rparr>)) \<in>
           (\<Union>m \<in> set (registered plainModels).
              {''create'' @ capitalize (getName m), ''update'' @ capitalize (getName m),
               ''remove'' @ capitalize (getName m)})"
    using u by blast
  ultimately have "''removeUser'' \<in> fst ` set (mutation_fields out)"
    unfolding n by simp
  with e out show ?thesis by simp
qed

text \<open>
  The claim as stated fails on the registry of \<open>Post\<close> and \<open>User\<close>, neither of them
  flagged as viewer: no field of \<open>Mutation\<close> is named \<open>CreatePost\<close> or \<open>Createpost\<close>, the
  fields are \<open>createPost\<close> and so on. With two models \<open>Post\<close> and \<open>POST\<close> the keys are not
  unique: the mutations of the second model replace those of the first.
\<close>

theorem mutation_field_names_counterexample:
  "map_sum id (map fst \<circ> mutation_fields) (createGraphqlSchema pluralize_s plainModels) =
     Inr [''createPost'', ''updatePost'', ''removePost'', ''createUser'', ''updateUser'',
          ''removeUser'']
   \<and> ''CreatePost'' \<notin> set [''createPost'', ''updatePost'', ''removePost'', ''createUser'',
          ''updateUser'', ''removeUser'']
   \<and> capitalize (''create'' @ capitalize ''Post'') = ''Createpost''
   \<and> ''Createpost'' \<notin> set [''createPost'', ''updatePost'', ''removePost'', ''createUser'',
          ''updateUser'', ''removeUser'']
   \<and> map_sum id (map (\<lambda>(k, c). (k, getName (fst (mutateAndGetPayload c)))) \<circ> mutation_fields)
       (createGraphqlSchema pluralize_s
          [(''Post'', Some postModel), (''POST'', Some (postModel\<lparr>getName := ''POST''\<rparr>))]) =
     Inr [(''createPost'', ''POST''), (''updatePost'', ''POST''), (''removePost'', ''POST'')]"
  by code_simp

subsection \<open>The viewer root\<close>

lemma no_viewer_flag:
  "(filter isViewer (registered models) = []) =
     (\<not> (\<exists>className m. (className, Some m) \<in> set models \<and> isViewer m))"
  by (auto simp add: filter_empty_conv set_registered)

text \<open>
  C3, as amended. Every compiled schema has the viewer root as the field \<open>viewer\<close> of
  \<open>Query\<close>, and the viewer root has the field \<open>id\<close>, whether or not a model is flagged as
  viewer. The viewer root has the field \<open>user\<close> if and only if some registered model is
  flagged as viewer.
\<close>

theorem viewer_root_always_exposed:
  assumes "createGraphqlSchema pluralize models = Inr out"
  shows "map_of (query_fields out) ''viewer'' = Some viewerField
       \<and> gtype viewerField = Some ViewerType
       \<and> map_of (viewer_fields out) ''id'' = Some (globalIdField ''user'' None)
       \<and> ((\<exists>f. map_of (viewer_fields out) ''user'' = Some f) =
            (\<exists>className m. (className, Some m) \<in> set models \<and> isViewer m))"
proof -
  from createGraphqlSchema_Inr(3) [OF assms]
  have "(\<exists>f. map_of (viewer_fields out) ''user'' = Some f) =
          (filter isViewer (registered models) \<noteq> [])"
    by (cases "map_of (viewer_fields out) ''user''") (auto split: if_splits)
  with createGraphqlSchema_Inr(1,2) [OF assms] no_viewer_flag [of models]
  show ?thesis by (simp add: viewerField_def)
qed

text \<open>The registry with the model \<open>Post\<close> only, which is not flagged as viewer.\<close>

theorem viewer_root_always_exposed_witness:
  "map_sum id (map fst \<circ> viewer_fields)
     (createGraphqlSchema pluralize_s [(''Post'', Some postModel)]) = Inr [''id'', ''allPosts'']
   \<and> map_of (query_fields (projr (createGraphqlSchema pluralize_s [(''Post'', Some postModel)])))
       ''viewer'' = Some viewerField
   \<and> map_of (viewer_fields (projr (createGraphqlSchema pluralize_s [(''Post'', Some postModel)])))
       ''id'' = Some (globalIdField ''user'' None)"
proof -
  have e: "map_sum id (map fst \<circ> viewer_fields)
     (createGraphqlSchema pluralize_s [(''Post'', Some postModel)]) = Inr [''id'', ''allPosts'']"
    by code_simp
  then obtain out where
    out: "createGraphqlSchema pluralize_s [(''Post'', Some postModel)] = Inr out"
    by (cases "createGraphqlSchema pluralize_s [(''Post'', Some postModel)]") auto
  from viewer_root_always_exposed [OF out] e out show ?thesis by simp
qed

text \<open>
  The claim as stated fails on the registry with the model \<open>Post\<close> only: no model is
  flagged as viewer, and \<open>Query\<close> has the viewer root.
\<close>

theorem viewer_root_counterexample:
  "filter isViewer (registered [(''Post'', Some postModel)]) = []
   \<and> map_sum id (map fst \<circ> query_fields)
       (createGraphqlSchema pluralize_s [(''Post'', Some postModel)]) =
     Inr [''node'', ''getPost'', ''viewer'']
   \<and> map_sum id (map fst \<circ> viewer_fields)
       (createGraphqlSchema pluralize_s [(''Post'', Some postModel)]) =
     Inr [''id'', ''allPosts'']"
  by code_simp

text \<open>
  C9, as amended. When at least one registered model is flagged as viewer, the viewer
  model is the last registered model, in the order of the registry, that is flagged: the
  first loop assigns \<open>viewerModel\<close> at every flagged model, and the field \<open>user\<close> of the
  viewer root resolves through \<open>resolveViewer\<close> of that model.
\<close>

theorem viewer_model_is_last_flagged:
  assumes "createGraphqlSchema pluralize models = Inr out"
      and "filter isViewer (registered models) \<noteq> []"
  shows "fst (prepare_loop models (None, [], [])) =
           Some (last (filter isViewer (registered models)))
       \<and> map_option resolve (map_of (viewer_fields out) ''user'') =
           Some (Some (ResolveViewer (last (filter isViewer (registered models)))))"
  using createGraphqlSchema_Inr(3) [OF assms(1)] assms(2)
    prepare_loop_viewer [of models None "[]" "[]"]
  by simp

text \<open>
  The registry of the models \<open>admin\<close> and \<open>user\<close>, in this order and both flagged as
  viewer: the viewer model is \<open>user\<close>.
\<close>

theorem viewer_model_is_last_flagged_witness:
  "map_sum id (map fst \<circ> viewer_fields)
     (createGraphqlSchema pluralize_s
        [(''admin'', Some (viewerModelNamed ''admin'')),
         (''user'', Some (viewerModelNamed ''user''))]) =
     Inr [''id'', ''user'', ''allAdmins'', ''allUsers'']
   \<and> filter isViewer
     (registered [(''admin'', Some (viewerModelNamed ''admin'')),
                  (''user'', Some (viewerModelNamed ''user''))]) =
     [viewerModelNamed ''admin'', viewerModelNamed ''user'']
   \<and> fst (prepare_loop
        [(''admin'', Some (viewerModelNamed ''admin'')),
         (''user'', Some (viewerModelNamed ''user''))]
        (None, [], [])) = Some (viewerModelNamed ''user'')
   \<and> map_option resolve
       (map_of (viewer_fields (projr (createGraphqlSchema pluralize_s
          [(''admin'', Some (viewerModelNamed ''admin'')),
           (''user'', Some (viewerModelNamed ''user''))])))
          ''user'') =
       Some (Some (ResolveViewer (viewerModelNamed ''user'')))"
proof -
  let ?ms = "[(''admin'', Some (viewerModelNamed ''admin'')),
              (''user'', Some (viewerModelNamed ''user''))]"
  have f: "filter isViewer (registered ?ms) =
      [viewerModelNamed ''admin'', viewerModelNamed ''user'']"
    by (simp add: viewerModelNamed_def)
  have e: "map_sum id (map fst \<circ> viewer_fields) (createGraphqlSchema pluralize_s ?ms) =
      Inr [''id'', ''user'', ''allAdmins'', ''allUsers'']"
    by code_simp
  then obtain out where out: "createGraphqlSchema pluralize_s ?ms = Inr out"
    by (cases "createGraphqlSchema pluralize_s ?ms") auto
  have n: "filter isViewer (registered ?ms) \<noteq> []" unfolding f by simp
  from viewer_model_is_last_flagged [OF out n]
  have "fst (prepare_loop ?ms (None, [], [])) = Some (viewerModelNamed ''user'')
     \<and> map_option resolve (map_of (viewer_fields out) ''user'') =
         Some (Some (ResolveViewer (viewerModelNamed ''user'')))"
    unfolding f by simp
  with f out e show ?thesis by (simp only: sum.sel simp_thms)
qed

text \<open>
  The claim as stated fails on the registry of the models \<open>user\<close> and \<open>admin\<close>, in this
  order and both flagged as viewer: the first flagged model is \<open>user\<close>, and the viewer
  model, whose \<open>resolveViewer\<close> resolves the field \<open>user\<close> of type \<open>user\<close>, is \<open>admin\<close>.
\<close>

theorem viewer_model_counterexample:
  "hd (filter isViewer
        (registered [(''user'', Some (viewerModelNamed ''user'')),
                     (''admin'', Some (viewerModelNamed ''admin''))])) =
     viewerModelNamed ''user''
   \<and> fst (prepare_loop
        [(''user'', Some (viewerModelNamed ''user'')),
         (''admin'', Some (viewerModelNamed ''admin''))]
        (None, [], [])) = Some (viewerModelNamed ''admin'')
   \<and> map_sum id (\<lambda>s. map_of (viewer_fields s) ''user'')
       (createGraphqlSchema pluralize_s
          [(''user'', Some (viewerModelNamed ''user'')),
           (''admin'', Some (viewerModelNamed ''admin''))]) =
     Inr (Some \<lparr>gtype = Some (ModelType ''user''), args = None,
                 resolve = Some (ResolveViewer (viewerModelNamed ''admin''))\<rparr>)
   \<and> viewerModelNamed ''user'' \<noteq> viewerModelNamed ''admin''"
  by code_simp

subsection \<open>Relations to a model that the registry does not have\<close>

text \<open>
  C4, as amended. When a registered model has a property whose \<open>relation\<close> is \<open>hasMany\<close>
  and whose \<open>ref\<close> is not the key of a model of the registry, \<open>createGraphqlSchema\<close>
  throws and returns no schema.
\<close>

theorem unresolved_hasMany_ref_fails:
  assumes "(className, Some m) \<in> set models"
      and "(p, field) \<in> set (properties (schema m))"
      and "relation field = Some ''hasMany''"
      and "\<forall>m'. map_of models (toString (ref field)) \<noteq> Some (Some m')"
  shows "\<exists>e. createGraphqlSchema pluralize models = Inl e"
proof -
  from isl_graphqlFields_loop [OF assms(2) assms(3) assms(4)]
  obtain e where "schemaToGraphqlFields models (schema m)
      (snd (snd (prepare_loop models (None, [], [])))) = Inl e"
    unfolding schemaToGraphqlFields_def by blast
  from createGraphqlSchema_Inl [OF assms(1) this] show ?thesis .
qed

text \<open>
  A registry whose only model \<open>Article\<close> has a \<open>hasMany\<close> property \<open>comments\<close> that refers
  to \<open>Comment\<close>.
\<close>

theorem unresolved_hasMany_ref_fails_witness:
  "(''Article'', Some (relationModel ''Article'' ''comments'' (relationTo ''hasMany'' ''Comment'')))
     \<in> set [(''Article'',
              Some (relationModel ''Article'' ''comments'' (relationTo ''hasMany'' ''Comment'')))]
   \<and> (''comments'', relationTo ''hasMany'' ''Comment'')
       \<in> set (properties (schema
           (relationModel ''Article'' ''comments'' (relationTo ''hasMany'' ''Comment''))))
   \<and> relation (relationTo ''hasMany'' ''Comment'') = Some ''hasMany''
   \<and> map_of [(''Article'',
              Some (relationModel ''Article'' ''comments'' (relationTo ''hasMany'' ''Comment'')))]
       (toString (ref (relationTo ''hasMany'' ''Comment''))) = None
   \<and> (\<exists>e. createGraphqlSchema pluralize_s
        [(''Article'',
          Some (relationModel ''Article'' ''comments'' (relationTo ''hasMany'' ''Comment'')))] =
        Inl e)"
proof -
  let ?m = "relationModel ''Article'' ''comments'' (relationTo ''hasMany'' ''Comment'')"
  have 1: "(''Article'', Some ?m) \<in> set [(''Article'', Some ?m)]" by simp
  have 2: "(''comments'', relationTo ''hasMany'' ''Comment'') \<in> set (properties (schema ?m))"
    by (simp add: relationModel_def relationSchema_def)
  have 3: "relation (relationTo ''hasMany'' ''Comment'') = Some ''hasMany''"
    by (simp add: relationTo_def)
  have 4: "map_of [(''Article'', Some ?m)] (toString (ref (relationTo ''hasMany'' ''Comment''))) =
      None"
    by (simp add: relationTo_def toString_def)
  then have 5: "\<forall>m'. map_of [(''Article'', Some ?m)]
      (toString (ref (relationTo ''hasMany'' ''Comment''))) \<noteq> Some (Some m')"
    by simp
  from unresolved_hasMany_ref_fails [OF 1 2 3 5, of pluralize_s] 1 2 3 4
  show ?thesis by blast
qed

text \<open>
  The claim as stated fails for a relation that is not \<open>hasMany\<close>: the model \<open>Article\<close>
  has a \<open>hasOne\<close> property \<open>author\<close> that refers to \<open>Nope\<close>, which the registry does not
  have, and the schema is compiled.
\<close>

theorem unresolved_ref_counterexample:
  "map_of [(''Article'',
            Some (relationModel ''Article'' ''author'' (relationTo ''hasOne'' ''Nope'')))]
     (toString (ref (relationTo ''hasOne'' ''Nope''))) = None
   \<and> map_sum id (map fst \<circ> query_fields)
       (createGraphqlSchema pluralize_s
          [(''Article'',
            Some (relationModel ''Article'' ''author'' (relationTo ''hasOne'' ''Nope'')))]) =
     Inr [''node'', ''getArticle'', ''viewer'']
   \<and> map_sum id model_fields
       (createGraphqlSchema pluralize_s
          [(''Article'',
            Some (relationModel ''Article'' ''author'' (relationTo ''hasOne'' ''Nope'')))]) =
     Inr [(''Article'', [(''id'', globalIdField ''Article'' None)])]"
  by code_simp

subsection \<open>Output fields of a mutation\<close>

lemma success_resolver_payload:
  "resolve_payload (SuccessResolve m) p =
     Inr (case result p of
            None \<Rightarrow> Null
          | Some r \<Rightarrow>
              (case result_id r of
                 None \<Rightarrow> Null
               | Some i \<Rightarrow> if i = [] then Null else ResolveOne m i))"
  by (simp add: truthy_def toString_def split: option.splits)

lemma entity_output_field:
  assumes "action = ''create'' \<or> action = ''update''"
      and "viewer = None \<or> getName m \<noteq> ''viewer''"
  shows "map_of (outputFields (crudConfig action m types viewer)) (getName m) =
           Some \<lparr>gtype = map_of types (getName m), args = None,
                 resolve = Some (SuccessResolve m)\<rparr>"
  using assms
  by (auto simp add: crudConfig_def Let_def update_conv' split: option.splits)

lemma remove_output:
  assumes "getName m \<noteq> ''errors''" and "getName m \<noteq> ''removedId''"
  shows "map_of (outputFields (crudConfig ''remove'' m types viewer)) ''removedId'' =
           Some removedIdField"
    and "map_of (outputFields (crudConfig ''remove'' m types viewer)) ''errors'' =
           Some errorsField"
    and "map_of (outputFields (crudConfig ''remove'' m types viewer)) (getName m) = None"
  using assms
  by (auto simp add: crudConfig_def Let_def update_conv' delete_conv' split: option.splits)

lemma errors_output:
  assumes "getName m \<noteq> ''errors''"
  shows "map_of (outputFields (crudConfig action m types viewer)) ''errors'' = Some errorsField"
  using assms
  by (auto simp add: crudConfig_def Let_def update_conv' delete_conv' split: option.splits)

text \<open>
  C5. For the actions \<open>create\<close> and \<open>update\<close>, the output field named after the model
  carries the success resolver. On a payload that resolver returns \<open>null\<close> when the result
  is absent or its identifier is absent or empty, and otherwise the entity that
  \<open>model.resolveOne\<close> fetches for that identifier. Every mutation of a compiled schema is
  the configuration \<open>crudConfig\<close> of an action and a registered model, with the viewer root
  attached. The model is not named \<open>viewer\<close>, the key under which the viewer root is
  attached: a registry with a model named \<open>viewer\<close> gives two types of that name, and
  \<open>new GraphQLSchema\<close> returns no schema for it.
\<close>

theorem entity_field_resolves:
  assumes "action = ''create'' \<or> action = ''update''"
      and "viewer = None \<or> getName m \<noteq> ''viewer''"
  shows "map_of (outputFields (crudConfig action m types viewer)) (getName m) =
           Some \<lparr>gtype = map_of types (getName m), args = None,
                 resolve = Some (SuccessResolve m)\<rparr>
       \<and> resolve_payload (SuccessResolve m) p =
           Inr (case result p of
                  None \<Rightarrow> Null
                | Some r \<Rightarrow>
                    (case result_id r of
                       None \<Rightarrow> Null
                     | Some i \<Rightarrow> if i = [] then Null else ResolveOne m i))
       \<and> (createGraphqlSchema pluralize models = Inr out \<and> (k, c) \<in> set (mutation_fields out) \<longrightarrow>
            (\<exists>a m'. a \<in> {''create'', ''update'', ''remove''} \<and> m' \<in> set (registered models) \<and>
               k = a @ capitalize (getName m') \<and>
               c = crudConfig a m' (snd (snd (prepare_loop models (None, [], []))))
                     (Some viewerField)))"
proof -
  have 3: "createGraphqlSchema pluralize models = Inr out \<and> (k, c) \<in> set (mutation_fields out) \<longrightarrow>
            (\<exists>a m'. a \<in> {''create'', ''update'', ''remove''} \<and> m' \<in> set (registered models) \<and>
               k = a @ capitalize (getName m') \<and>
               c = crudConfig a m' (snd (snd (prepare_loop models (None, [], []))))
                     (Some viewerField))"
  proof
    assume h: "createGraphqlSchema pluralize models = Inr out \<and> (k, c) \<in> set (mutation_fields out)"
    then have "(k, c) \<in> set (mutations_loop models
        (snd (snd (prepare_loop models (None, [], [])))) (Some viewerField) [])"
      using createGraphqlSchema_Inr(4) [of pluralize models out] by simp
    from mutations_loop_entries [OF this]
    show "\<exists>a m'. a \<in> {''create'', ''update'', ''remove''} \<and> m' \<in> set (registered models) \<and>
               k = a @ capitalize (getName m') \<and>
               c = crudConfig a m' (snd (snd (prepare_loop models (None, [], []))))
                     (Some viewerField)"
      by simp
  qed
  from entity_output_field [OF assms] success_resolver_payload 3 show ?thesis by blast
qed

text \<open>
  The update mutation of \<open>Post\<close> in the schema compiled from the registry of \<open>Post\<close> and
  \<open>User\<close>, on a payload whose result has the identifier \<open>42\<close> and on a payload without a
  result.
\<close>

theorem entity_field_resolves_witness:
  "getName postModel \<noteq> ''viewer''
   \<and> map_sum id (\<lambda>s. map_of (mutation_fields s) ''updatePost'')
       (createGraphqlSchema pluralize_s plainModels) =
       Inr (Some (crudConfig ''update'' postModel
                    [(''Post'', ModelType ''Post''), (''User'', ModelType ''User'')]
                    (Some viewerField)))
   \<and> map_of (outputFields
         (crudConfig ''update'' postModel
            [(''Post'', ModelType ''Post''), (''User'', ModelType ''User'')] (Some viewerField)))
         ''Post'' =
       Some \<lparr>gtype = Some (ModelType ''Post''), args = None,
             resolve = Some (SuccessResolve postModel)\<rparr>
   \<and> resolve_payload (SuccessResolve postModel)
         \<lparr>result = Some \<lparr>result_id = Some ''42''\<rparr>, errors = (None :: string list option)\<rparr> =
       Inr (ResolveOne postModel ''42'')
   \<and> resolve_payload (SuccessResolve postModel)
         \<lparr>result = None, errors = Some [''title'']\<rparr> = Inr Null"
proof -
  have a: "''update'' = ''create'' \<or> ''update'' = ''update''" by simp
  have v: "Some viewerField = None \<or> getName postModel \<noteq> ''viewer''"
    by (simp add: postModel_def)
  have e: "map_sum id (\<lambda>s. map_of (mutation_fields s) ''updatePost'')
       (createGraphqlSchema pluralize_s plainModels) =
       Inr (Some (crudConfig ''update'' postModel
                    [(''Post'', ModelType ''Post''), (''User'', ModelType ''User'')]
                    (Some viewerField)))"
    by code_simp
  have n: "resolve_payload (SuccessResolve postModel)
         \<lparr>result = None, errors = Some [''title'']\<rparr> = Inr Null"
    by simp
  from entity_field_resolves [OF a v, where types = "[(''Post'', ModelType ''Post''),
        (''User'', ModelType ''User'')]"
      and p = "\<lparr>result = Some \<lparr>result_id = Some ''42''\<rparr>, errors = (None :: string list option)\<rparr>"]
  have "map_of (outputFields
         (crudConfig ''update'' postModel
            [(''Post'', ModelType ''Post''), (''User'', ModelType ''User'')] (Some viewerField)))
         (getName postModel) =
       Some \<lparr>gtype = map_of [(''Post'', ModelType ''Post''), (''User'', ModelType ''User'')]
                       (getName postModel), args = None,
             resolve = Some (SuccessResolve postModel)\<rparr>
     \<and> resolve_payload (SuccessResolve postModel)
         \<lparr>result = Some \<lparr>result_id = Some ''42''\<rparr>, errors = (None :: string list option)\<rparr> =
       Inr (ResolveOne postModel ''42'')"
    by simp
  then have "map_of (outputFields
         (crudConfig ''update'' postModel
            [(''Post'', ModelType ''Post''), (''User'', ModelType ''User'')] (Some viewerField)))
         ''Post'' =
       Some \<lparr>gtype = Some (ModelType ''Post''), args = None,
             resolve = Some (SuccessResolve postModel)\<rparr>
     \<and> resolve_payload (SuccessResolve postModel)
         \<lparr>result = Some \<lparr>result_id = Some ''42''\<rparr>, errors = (None :: string list option)\<rparr> =
       Inr (ResolveOne postModel ''42'')"
    by (simp add: postModel_def)
  with e n show ?thesis by (simp add: postModel_def)
qed

text \<open>
  C6, as amended. For the action \<open>remove\<close> and a model named neither \<open>errors\<close> nor
  \<open>removedId\<close>, the output fields contain \<open>removedId\<close> and \<open>errors\<close> and have no field
  named after the model; their keys are \<open>errors\<close>, \<open>removedId\<close> and, with a viewer root,
  \<open>viewer\<close>, without the name of the model. The resolver of \<open>removedId\<close> returns the
  identifier of the result of the payload.
\<close>

theorem remove_output_fields:
  assumes "getName m \<noteq> ''errors''" and "getName m \<noteq> ''removedId''"
  shows "map_of (outputFields (crudConfig ''remove'' m types viewer)) ''removedId'' =
           Some removedIdField
       \<and> map_of (outputFields (crudConfig ''remove'' m types viewer)) ''errors'' =
           Some errorsField
       \<and> map_of (outputFields (crudConfig ''remove'' m types viewer)) (getName m) = None
       \<and> fst ` set (outputFields (crudConfig ''remove'' m types viewer)) =
           ({''errors'', ''removedId''} \<union> (case viewer of None \<Rightarrow> {} | Some v \<Rightarrow> {''viewer''}))
           - {getName m}
       \<and> resolve removedIdField = Some RemovedIdResolve
       \<and> resolve_payload RemovedIdResolve (p\<lparr>result := Some r\<rparr>) = Inr (Identifier (result_id r))"
proof -
  have keys: "fst ` set (outputFields (crudConfig ''remove'' m types viewer)) =
           ({''errors'', ''removedId''} \<union> (case viewer of None \<Rightarrow> {} | Some v \<Rightarrow> {''viewer''}))
           - {getName m}"
    using assms
    by (auto simp add: crudConfig_def Let_def dom_update delete_keys
        simp flip: set_map split: option.splits)
  show ?thesis
    using remove_output [OF assms, of types viewer] keys
    by (simp add: removedIdField_def)
qed

text \<open>The remove mutation of \<open>Post\<close>, on a payload whose result has the identifier \<open>42\<close>.\<close>

theorem remove_output_fields_witness:
  "getName postModel \<noteq> ''errors'' \<and> getName postModel \<noteq> ''removedId''
   \<and> map fst (outputFields
        (crudConfig ''remove'' postModel [(''Post'', ModelType ''Post'')] (Some viewerField))) =
       [''errors'', ''viewer'', ''removedId'']
   \<and> map_of (outputFields
        (crudConfig ''remove'' postModel [(''Post'', ModelType ''Post'')] (Some viewerField)))
        ''Post'' = None
   \<and> resolve_payload RemovedIdResolve
        \<lparr>result = Some \<lparr>result_id = Some ''42''\<rparr>, errors = (None :: string list option)\<rparr> =
       Inr (Identifier (Some ''42''))"
proof -
  have g: "getName postModel = ''Post''" by (simp add: postModel_def)
  have a: "getName postModel \<noteq> ''errors''" and b: "getName postModel \<noteq> ''removedId''"
    by (simp_all add: g)
  have k: "map fst (outputFields
        (crudConfig ''remove'' postModel [(''Post'', ModelType ''Post'')] (Some viewerField))) =
       [''errors'', ''viewer'', ''removedId'']"
    by (simp add: crudConfig_def Let_def postModel_def)
  show ?thesis
    using remove_output_fields [OF a b, where types = "[(''Post'', ModelType ''Post'')]"
        and viewer = "Some viewerField"
        and p = "\<lparr>result = None, errors = (None :: string list option)\<rparr>"
        and r = "\<lparr>result_id = Some ''42''\<rparr>"]
      a b k
    by (simp add: g)
qed

text \<open>
  The claim as stated fails for a model named \<open>removedId\<close>: \<open>delete\<close> of the field named
  after the model removes the field \<open>removedId\<close> that was just set.
\<close>

theorem remove_output_fields_counterexample:
  "map fst (outputFields
      (crudConfig ''remove'' (postModel\<lparr>getName := ''removedId''\<rparr>)
         [(''removedId'', ModelType ''removedId'')] (Some viewerField))) =
     [''errors'', ''viewer'']"
  by (simp add: crudConfig_def Let_def)

text \<open>
  C7, as amended. For every action and every model that is not named \<open>errors\<close>, the output
  fields contain \<open>errors\<close>, a list of \<open>MutationError\<close>. Its resolver returns the errors of
  the payload, in their order, when there is at least one, and \<open>null\<close> when the payload
  has no errors or an empty list of them.
\<close>

theorem errors_output_field:
  assumes "getName m \<noteq> ''errors''"
  shows "map_of (outputFields (crudConfig action m types viewer)) ''errors'' = Some errorsField
       \<and> errorsField =
           \<lparr>gtype = Some (GraphQLList MutationError), args = None, resolve = Some ErrorsResolve\<rparr>
       \<and> resolve_payload ErrorsResolve p =
           Inr (case errors p of
                  None \<Rightarrow> Null
                | Some es \<Rightarrow> if es = [] then Null else ErrorList es)"
  using errors_output [OF assms]
  by (simp add: errorsField_def split: option.splits)

text \<open>The create mutation of \<open>Post\<close>, on a payload with two errors.\<close>

theorem errors_output_field_witness:
  "getName postModel \<noteq> ''errors''
   \<and> map_of (outputFields
        (crudConfig ''create'' postModel [(''Post'', ModelType ''Post'')] (Some viewerField)))
        ''errors'' = Some errorsField
   \<and> resolve_payload ErrorsResolve \<lparr>result = None, errors = Some [''title'', ''authorId'']\<rparr> =
       Inr (ErrorList [''title'', ''authorId''])"
proof -
  have a: "getName postModel \<noteq> ''errors''" by (simp add: postModel_def)
  show ?thesis
    using errors_output_field [OF a, of "''create''" "[(''Post'', ModelType ''Post'')]"
        "Some viewerField" "\<lparr>result = None, errors = Some [''title'', ''authorId'']\<rparr>"] a
    by simp
qed

text \<open>
  The claim as stated fails on a payload whose list of errors is empty: the resolver
  returns \<open>null\<close>, not the empty list.
\<close>

theorem errors_output_field_counterexample:
  "resolve_payload ErrorsResolve
     \<lparr>result = Some \<lparr>result_id = Some ''42''\<rparr>, errors = Some ([] :: string list)\<rparr> = Inr Null
   \<and> (Inr Null :: error + string resolved) \<noteq> Inr (ErrorList [])"
  by simp

subsection \<open>Input fields of a mutation\<close>

lemma inputField_nullable:
  "gtype (inputField prop field schm) =
     map_option getNullableType (gtype (queryField prop field schm))"
  by (simp add: inputField_def queryField_def Let_def)

lemma inputField_not_NonNull:
  "gtype (inputField prop field schm) \<noteq> Some (GraphQLNonNull t)"
  by (cases "ptype field")
    (simp_all add: inputField_def fieldToGraphqlType_def globalIdField_def plainField_def)

lemma map_of_inputFields:
  assumes "distinct (map fst (properties (schema m)))"
  shows "map_of (inputFields (crudConfig action m types viewer)) prop =
     (case map_of (properties (schema m)) prop of
        None \<Rightarrow> None
      | Some field \<Rightarrow>
          if truthy (relation field) \<or> (action = ''create'' \<and> prop = ''id'') then None
          else Some (inputField prop field (schema m)))"
  using map_of_mutationFields_loop [OF assms, of "schema m" "[]"]
  by (auto simp add: crudConfig_def Let_def schemaToMutationFields_def delete_conv'
      split: option.splits)

lemma map_of_queryFields:
  assumes "distinct (map fst (properties schm))"
    and "schemaToGraphqlFields this_models schm types = Inr flds"
    and "map_of (properties schm) prop = Some field"
    and "\<not> truthy (relation field)"
  shows "map_of flds prop = Some (queryField prop field schm)"
  using map_of_graphqlFields_loop [OF assms(1), of this_models schm types "[]" flds "prop"]
    assms(2,3,4)
  by (simp add: schemaToGraphqlFields_def)

lemma queryField_type:
  "gtype (queryField prop f schm) =
     Some (case ptype f of
             TypeId \<Rightarrow> GraphQLNonNull GraphQLID
           | TypeString \<Rightarrow> GraphQLString
           | TypeBoolean \<Rightarrow> GraphQLBoolean
           | TypeNumber \<Rightarrow> GraphQLInt
           | TypeFloat \<Rightarrow> GraphQLFloat
           | TypeObject \<Rightarrow> GraphQLJSON
           | TypeArray \<Rightarrow> GraphQLJSON
           | TypeOther \<Rightarrow> GraphQLString)"
  by (cases "ptype f")
    (simp_all add: queryField_def fieldToGraphqlType_def globalIdField_def plainField_def
      Let_def)

lemma inputField_type:
  "gtype (inputField prop f schm) =
     Some (case ptype f of
             TypeId \<Rightarrow> GraphQLID
           | TypeString \<Rightarrow> GraphQLString
           | TypeBoolean \<Rightarrow> GraphQLBoolean
           | TypeNumber \<Rightarrow> GraphQLInt
           | TypeFloat \<Rightarrow> GraphQLFloat
           | TypeObject \<Rightarrow> GraphQLJSON
           | TypeArray \<Rightarrow> GraphQLJSON
           | TypeOther \<Rightarrow> GraphQLString)"
  by (cases "ptype f")
    (simp_all add: inputField_def fieldToGraphqlType_def globalIdField_def plainField_def
      Let_def)

lemma getNullableType_other:
  "(\<forall>u. t \<noteq> GraphQLNonNull u) \<longrightarrow> getNullableType t = t"
  by (cases t) simp_all

text \<open>
  C8. The keys of the entries of \<open>schema.properties\<close> are distinct, as the keys of an
  object are. For every model, action and property name, the input fields of the mutation
  have a field of that name exactly when the schema has a property of that name whose
  \<open>relation\<close> is not truthy and, for the action \<open>create\<close>, the name is not \<open>id\<close>; the field
  is \<open>inputField\<close>, whose type is the nullable form of the type of the query field of the
  property, and is never a non-null type. The nullable form of a non-null type is the type
  under it, and every other type is its own nullable form: the query field of an \<open>id\<close>
  property is a non-null \<open>ID\<close> and its input field an \<open>ID\<close>, and the query field and the
  input field of every other property have the same scalar type. The query field is the
  one that \<open>schemaToGraphqlFields\<close> stores for the property.
\<close>

theorem mutation_input_fields:
  assumes "distinct (map fst (properties (schema m)))"
  shows "map_of (inputFields (crudConfig action m types viewer)) pname =
           (case map_of (properties (schema m)) pname of
              None \<Rightarrow> None
            | Some field \<Rightarrow>
                if truthy (relation field) \<or> (action = ''create'' \<and> pname = ''id'') then None
                else Some (inputField pname field (schema m)))
       \<and> gtype (inputField pname f (schema m)) =
           map_option getNullableType (gtype (queryField pname f (schema m)))
       \<and> gtype (inputField pname f (schema m)) \<noteq> Some (GraphQLNonNull t)
       \<and> getNullableType (GraphQLNonNull t') = t'
       \<and> ((\<forall>u. t'' \<noteq> GraphQLNonNull u) \<longrightarrow> getNullableType t'' = t'')
       \<and> gtype (queryField pname f (schema m)) =
           Some (case ptype f of
                   TypeId \<Rightarrow> GraphQLNonNull GraphQLID
                 | TypeString \<Rightarrow> GraphQLString
                 | TypeBoolean \<Rightarrow> GraphQLBoolean
                 | TypeNumber \<Rightarrow> GraphQLInt
                 | TypeFloat \<Rightarrow> GraphQLFloat
                 | TypeObject \<Rightarrow> GraphQLJSON
                 | TypeArray \<Rightarrow> GraphQLJSON
                 | TypeOther \<Rightarrow> GraphQLString)
       \<and> gtype (inputField pname f (schema m)) =
           Some (case ptype f of
                   TypeId \<Rightarrow> GraphQLID
                 | TypeString \<Rightarrow> GraphQLString
                 | TypeBoolean \<Rightarrow> GraphQLBoolean
                 | TypeNumber \<Rightarrow> GraphQLInt
                 | TypeFloat \<Rightarrow> GraphQLFloat
                 | TypeObject \<Rightarrow> GraphQLJSON
                 | TypeArray \<Rightarrow> GraphQLJSON
                 | TypeOther \<Rightarrow> GraphQLString)
       \<and> (schemaToGraphqlFields this_models (schema m) types' = Inr flds \<and>
           map_of (properties (schema m)) pname = Some f \<and> \<not> truthy (relation f) \<longrightarrow>
           map_of flds pname = Some (queryField pname f (schema m)))"
proof -
  have n: "getNullableType (GraphQLNonNull t') = t'" by simp
  have q: "schemaToGraphqlFields this_models (schema m) types' = Inr flds \<and>
           map_of (properties (schema m)) pname = Some f \<and> \<not> truthy (relation f) \<longrightarrow>
           map_of flds pname = Some (queryField pname f (schema m))"
    using map_of_queryFields [OF assms] by blast
  show ?thesis
    using map_of_inputFields [OF assms, of action types viewer "pname"]
      inputField_nullable [of "pname" f "schema m"]
      inputField_not_NonNull [of "pname" f "schema m" t]
      n getNullableType_other [of t'']
      queryField_type [of "pname" f "schema m"] inputField_type [of "pname" f "schema m"] q
    by (intro conjI)
qed

text \<open>
  The create and update mutations of \<open>Post\<close>: \<open>authorId\<close> is a non-null \<open>ID\<close> in the query
  type and an \<open>ID\<close> in the input, \<open>title\<close> is a \<open>String\<close> in both, and \<open>id\<close> is an input of
  \<open>update\<close> only.
\<close>

theorem mutation_input_fields_witness:
  "distinct (map fst (properties (schema postModel)))
   \<and> map_of (inputFields (crudConfig ''create'' postModel [] None)) ''id'' = None
   \<and> map_of (inputFields (crudConfig ''update'' postModel [] None)) ''id'' =
       Some \<lparr>gtype = Some GraphQLID, args = None,
             resolve = Some (GlobalIdResolve ''Post'' None)\<rparr>
   \<and> map_of (inputFields (crudConfig ''create'' postModel [] None)) ''authorId'' =
       Some \<lparr>gtype = Some GraphQLID, args = None,
             resolve = Some (GlobalIdResolve ''User'' (Some ''authorId''))\<rparr>
   \<and> gtype (queryField ''authorId'' ((scalar TypeId)\<lparr>foreignKeyFor := Some ''User''\<rparr>)
        (schema postModel)) = Some (GraphQLNonNull GraphQLID)
   \<and> map_of (inputFields (crudConfig ''create'' postModel [] None)) ''title'' =
       Some \<lparr>gtype = Some GraphQLString, args = None, resolve = None\<rparr>
   \<and> gtype (queryField ''title'' (scalar TypeString) (schema postModel)) = Some GraphQLString
   \<and> map fst (inputFields (crudConfig ''create'' postModel [] None)) = [''title'', ''authorId'']
   \<and> getNullableType GraphQLString = GraphQLString"
proof -
  have d: "distinct (map fst (properties (schema postModel)))"
    by (simp add: postModel_def postSchema_def)
  have p: "map_of (properties (schema postModel)) ''id'' = Some (scalar TypeId)"
    "map_of (properties (schema postModel)) ''authorId'' =
       Some ((scalar TypeId)\<lparr>foreignKeyFor := Some ''User''\<rparr>)"
    "map_of (properties (schema postModel)) ''title'' = Some (scalar TypeString)"
    by (simp_all add: postModel_def postSchema_def)
  have i: "inputField ''id'' (scalar TypeId) (schema postModel) =
      \<lparr>gtype = Some GraphQLID, args = None, resolve = Some (GlobalIdResolve ''Post'' None)\<rparr>"
    "inputField ''authorId'' ((scalar TypeId)\<lparr>foreignKeyFor := Some ''User''\<rparr>)
       (schema postModel) =
      \<lparr>gtype = Some GraphQLID, args = None,
       resolve = Some (GlobalIdResolve ''User'' (Some ''authorId''))\<rparr>"
    "inputField ''title'' (scalar TypeString) (schema postModel) =
      \<lparr>gtype = Some GraphQLString, args = None, resolve = None\<rparr>"
    by (simp_all add: inputField_def fieldToGraphqlType_def globalIdField_def plainField_def
        truthy_def toString_def scalar_def postModel_def postSchema_def)
  have r: "\<not> truthy (relation (scalar TypeId))"
    "\<not> truthy (relation ((scalar TypeId)\<lparr>foreignKeyFor := Some ''User''\<rparr>))"
    "\<not> truthy (relation (scalar TypeString))"
    by (simp_all add: truthy_def scalar_def)
  have k: "map fst (inputFields (crudConfig ''create'' postModel [] None)) =
      [''title'', ''authorId'']"
    by code_simp
  from mutation_input_fields [OF d, of "''create''" "[]" None "''id''"]
  have 1: "map_of (inputFields (crudConfig ''create'' postModel [] None)) ''id'' = None"
    by (simp add: p)
  from mutation_input_fields [OF d, of "''update''" "[]" None "''id''"]
  have 2: "map_of (inputFields (crudConfig ''update'' postModel [] None)) ''id'' =
       Some \<lparr>gtype = Some GraphQLID, args = None,
             resolve = Some (GlobalIdResolve ''Post'' None)\<rparr>"
    by (simp add: p r i)
  from mutation_input_fields [OF d, of "''create''" "[]" None "''authorId''"]
  have 3: "map_of (inputFields (crudConfig ''create'' postModel [] None)) ''authorId'' =
       Some \<lparr>gtype = Some GraphQLID, args = None,
             resolve = Some (GlobalIdResolve ''User'' (Some ''authorId''))\<rparr>"
    by (simp add: p r i)
  from mutation_input_fields [OF d, of "''create''" "[]" None "''title''"]
  have 4: "map_of (inputFields (crudConfig ''create'' postModel [] None)) ''title'' =
       Some \<lparr>gtype = Some GraphQLString, args = None, resolve = None\<rparr>"
    by (simp add: p r i)
  from mutation_input_fields [OF d, where f = "(scalar TypeId)\<lparr>foreignKeyFor := Some ''User''\<rparr>"
      and pname = "''authorId''"]
  have 5: "gtype (queryField ''authorId'' ((scalar TypeId)\<lparr>foreignKeyFor := Some ''User''\<rparr>)
        (schema postModel)) = Some (GraphQLNonNull GraphQLID)"
    by (simp add: scalar_def)
  from mutation_input_fields [OF d, where f = "scalar TypeString" and pname = "''title''"]
  have 6: "gtype (queryField ''title'' (scalar TypeString) (schema postModel)) =
      Some GraphQLString"
    by (simp add: scalar_def)
  from mutation_input_fields [OF d, where t'' = GraphQLString]
  have 7: "getNullableType GraphQLString = GraphQLString"
    by simp
  from d 1 2 3 4 5 6 7 k show ?thesis by (intro conjI)
qed

subsection \<open>Properties with the relation \<open>hasOne\<close>\<close>

text \<open>
  C10. The keys of the entries of \<open>schema.properties\<close> are distinct. For a property whose
  \<open>relation\<close> is \<open>hasOne\<close>, \<open>schemaToGraphqlFields\<close> returns what it returns for the schema
  without the property (the same fields or the same exception, so the property is
  neither compiled nor reported), the fields it returns have none of that name, and
  neither have the fields of \<open>schemaToMutationFields\<close>. The fields of every object type of
  a compiled schema are the fields that \<open>schemaToGraphqlFields\<close> returns for the schema
  of a registered model of that name.
\<close>

theorem hasOne_property_skipped:
  assumes "distinct (map fst (properties schm))"
      and "map_of (properties schm) prop = Some field"
      and "relation field = Some ''hasOne''"
  shows "schemaToGraphqlFields this_models schm types =
           schemaToGraphqlFields this_models
             (schm\<lparr>properties := AList.delete prop (properties schm)\<rparr>) types
       \<and> (\<forall>flds. schemaToGraphqlFields this_models schm types = Inr flds \<longrightarrow>
             map_of flds prop = None)
       \<and> map_of (schemaToMutationFields schm) prop = None
       \<and> (createGraphqlSchema pluralize models = Inr out \<and>
           map_of (model_fields out) n = Some compiled \<longrightarrow>
           (\<exists>m. m \<in> set (registered models) \<and> getName m = n \<and>
              schemaToGraphqlFields models (schema m)
                (snd (snd (prepare_loop models (None, [], [])))) = Inr compiled))"
proof -
  have t: "truthy (relation field)" and h: "relation field \<noteq> Some ''hasMany''"
    using assms(3) by (simp_all add: truthy_def)
  have "\<forall>f. (prop, f) \<in> set (properties schm) \<longrightarrow>
          truthy (relation f) \<and> relation f \<noteq> Some ''hasMany''"
    using distinct_map_of_unique [OF assms(1) assms(2)] t h by blast
  from graphqlFields_loop_skip [OF this]
  have 1: "schemaToGraphqlFields this_models schm types =
           schemaToGraphqlFields this_models
             (schm\<lparr>properties := AList.delete prop (properties schm)\<rparr>) types"
    by (simp add: schemaToGraphqlFields_def graphqlFields_loop_schema)
  have 2: "map_of flds prop = None"
    if "schemaToGraphqlFields this_models schm types = Inr flds" for flds
    using map_of_graphqlFields_loop [OF assms(1), of this_models schm types "[]" flds "prop"]
      that assms(2) t h
    by (simp add: schemaToGraphqlFields_def)
  have 3: "map_of (schemaToMutationFields schm) prop = None"
    using map_of_mutationFields_loop [OF assms(1), of schm "[]" "prop"] assms(2) t
    by (simp add: schemaToMutationFields_def)
  have 4: "createGraphqlSchema pluralize models = Inr out \<and>
           map_of (model_fields out) n = Some compiled \<longrightarrow>
           (\<exists>m. m \<in> set (registered models) \<and> getName m = n \<and>
              schemaToGraphqlFields models (schema m)
                (snd (snd (prepare_loop models (None, [], [])))) = Inr compiled)"
    using createGraphqlSchema_Inr(6) by blast
  from 1 2 3 4 show ?thesis by blast
qed

text \<open>
  A schema \<open>Article\<close> with the properties \<open>id\<close> and \<open>author\<close>, the second one a \<open>hasOne\<close>
  relation to a model that the registry does not have: the only field is \<open>id\<close>.
\<close>

theorem hasOne_property_skipped_witness:
  "distinct (map fst (properties (relationSchema ''Article'' ''author''
       (relationTo ''hasOne'' ''Nope''))))
   \<and> map_of (properties (relationSchema ''Article'' ''author'' (relationTo ''hasOne'' ''Nope'')))
        ''author'' = Some (relationTo ''hasOne'' ''Nope'')
   \<and> relation (relationTo ''hasOne'' ''Nope'') = Some ''hasOne''
   \<and> schemaToGraphqlFields exampleModels
        (relationSchema ''Article'' ''author'' (relationTo ''hasOne'' ''Nope'')) [] =
       Inr [(''id'', globalIdField ''Article'' None)]
   \<and> map_of (schemaToMutationFields
        (relationSchema ''Article'' ''author'' (relationTo ''hasOne'' ''Nope''))) ''author'' =
       None"
proof -
  have d: "distinct (map fst (properties (relationSchema ''Article'' ''author''
       (relationTo ''hasOne'' ''Nope''))))"
    by (simp add: relationSchema_def)
  have p: "map_of (properties (relationSchema ''Article'' ''author''
        (relationTo ''hasOne'' ''Nope''))) ''author'' = Some (relationTo ''hasOne'' ''Nope'')"
    by (simp add: relationSchema_def)
  have r: "relation (relationTo ''hasOne'' ''Nope'') = Some ''hasOne''"
    by (simp add: relationTo_def)
  have e: "schemaToGraphqlFields exampleModels
        (relationSchema ''Article'' ''author'' (relationTo ''hasOne'' ''Nope'')
           \<lparr>properties := AList.delete ''author'' (properties
               (relationSchema ''Article'' ''author'' (relationTo ''hasOne'' ''Nope'')))\<rparr>) [] =
       Inr [(''id'', globalIdField ''Article'' None)]"
    by (simp add: schemaToGraphqlFields_def relationSchema_def scalar_def truthy_def
        queryField_def fieldToGraphqlType_def)
  from hasOne_property_skipped [OF d p r, of exampleModels "[]"] d p r e
  show ?thesis by simp
qed

end
